theory Spec2Isabelle
  imports Complex_Main "HOL-Library.Sublist"
begin

section \<open>The daily horoscope video bot (\<^verbatim>\<open>horoscope_video_bot.py\<close>)\<close>

text \<open>
  The script fetches one text per zodiac sign, synthesises audio for it, builds one video
  segment per sign, concatenates the segments, writes the file and uploads it. Everything
  outside the script (the HTTP service, text-to-speech, the media library, the file system,
  the upload endpoint) is a field of the record \<open>world\<close>: a field says what the outside
  answers when the script asks. The script's own control flow is translated line by line.

  A Python float (a clip duration, the running timestamp) is the real number it stands
  for. The running timestamp is a sum of floats, and every \<^verbatim>\<open>+=\<close> rounds: the sum of two
  floats is the exact sum rounded back to a float, by the world's \<open>round_float\<close>. On a
  float, \<open>//\<close> and \<open>%\<close> by 60 are the floor quotient and its remainder.

  Exceptions are values of \<open>error\<close>; a function that can raise returns \<open>error + 'a\<close>.
\<close>

subsection \<open>Exceptions and Python values\<close>

datatype error =
    RequestException    \<comment> \<open>\<^verbatim>\<open>requests.exceptions.RequestException\<close> and its subclasses\<close>
  | TypeError
  | AttributeError
  | KeyError
  | MediaError          \<comment> \<open>whatever the media library raises when it cannot build a clip\<close>
  | UploadError         \<comment> \<open>whatever the upload client raises\<close>
  | AuthError           \<comment> \<open>whatever escapes \<^verbatim>\<open>get_youtube_service\<close>\<close>

text \<open>The JSON document \<^verbatim>\<open>response.json()\<close> returns, as the Python value it decodes to.\<close>

datatype pyval =
    PNone
  | PBool bool
  | PNum int
  | PStr string
  | PList "pyval list"
  | PDict "(string \<times> pyval) list"

subsection \<open>Strings\<close>

text \<open>\<^verbatim>\<open>str.capitalize()\<close> on ASCII text: first character upper case, the rest lower case.\<close>

definition upper_char :: "char \<Rightarrow> char" where
  "upper_char c =
     (case map_of (zip ''abcdefghijklmnopqrstuvwxyz'' ''ABCDEFGHIJKLMNOPQRSTUVWXYZ'') c of
        Some u \<Rightarrow> u | None \<Rightarrow> c)"

definition lower_char :: "char \<Rightarrow> char" where
  "lower_char c =
     (case map_of (zip ''ABCDEFGHIJKLMNOPQRSTUVWXYZ'' ''abcdefghijklmnopqrstuvwxyz'') c of
        Some l \<Rightarrow> l | None \<Rightarrow> c)"

fun capitalize :: "string \<Rightarrow> string" where
  "capitalize [] = []"
| "capitalize (c # cs) = upper_char c # map lower_char cs"

text \<open>\<^verbatim>\<open>sub in s\<close> for two strings: \<open>sub\<close> occurs in \<open>s\<close> as a contiguous block.\<close>

fun starts_with :: "string \<Rightarrow> string \<Rightarrow> bool" where
  "starts_with s [] = True"
| "starts_with [] (p # ps) = False"
| "starts_with (c # cs) (p # ps) = (c = p \<and> starts_with cs ps)"

fun str_contains :: "string \<Rightarrow> string \<Rightarrow> bool" where
  "str_contains [] sub = (sub = [])"
| "str_contains (c # cs) sub = (starts_with (c # cs) sub \<or> str_contains cs sub)"

subsection \<open>The media library's clips\<close>

text \<open>
  Only what the script reads back from a clip is kept: which layers it shows, which audio
  it carries and its \<^verbatim>\<open>duration\<close>. An audio clip is a file of a measured duration or a
  \<^verbatim>\<open>subclip\<close> of one; the constructor records that a truncation happened.
\<close>

datatype audio_clip =
    AudioFileClip string real           \<comment> \<open>path, duration of the decoded file\<close>
  | Subclip audio_clip real real        \<comment> \<open>\<^verbatim>\<open>clip.subclip(t_start, t_end)\<close>\<close>

fun audio_duration :: "audio_clip \<Rightarrow> real" where
  "audio_duration (AudioFileClip p d) = d"
| "audio_duration (Subclip a t_start t_end) =
     (if t_end < 0 then audio_duration a + t_end - t_start else t_end - t_start)"

datatype layer =
    ImageClip string real               \<comment> \<open>path, duration set on it\<close>
  | TextClip string real                \<comment> \<open>text, duration set on it\<close>

fun layer_duration :: "layer \<Rightarrow> real" where
  "layer_duration (ImageClip p d) = d"
| "layer_duration (TextClip t d) = d"

record video_clip =
  layers :: "layer list"
  audio :: "audio_clip option"
  duration :: real

text \<open>\<^verbatim>\<open>CompositeVideoClip(clips)\<close> lasts until its last layer ends; it carries no audio yet.\<close>

fun max_end :: "layer list \<Rightarrow> real" where
  "max_end [] = 0"
| "max_end [l] = layer_duration l"
| "max_end (l # ls) = max (layer_duration l) (max_end ls)"

definition CompositeVideoClip :: "layer list \<Rightarrow> video_clip" where
  "CompositeVideoClip clips = \<lparr>layers = clips, audio = None, duration = max_end clips\<rparr>"

definition set_audio :: "audio_clip \<Rightarrow> video_clip \<Rightarrow> video_clip" where
  "set_audio a v = v\<lparr>audio := Some a\<rparr>"

definition set_duration :: "real \<Rightarrow> video_clip \<Rightarrow> video_clip" where
  "set_duration t v = v\<lparr>duration := t\<rparr>"

subsection \<open>The outside world\<close>

datatype response =
    Request_fails             \<comment> \<open>the post, \<^verbatim>\<open>raise_for_status\<close> or the decoding raises a \<^verbatim>\<open>RequestException\<close>\<close>
  | Request_crashes error     \<comment> \<open>the call raises an exception of another class\<close>
  | Json pyval                \<comment> \<open>status 2xx with this decoded body\<close>

datatype chunk =
    Chunk_raises
  | Chunk bool "(string \<times> string) list option"
      \<comment> \<open>\<^verbatim>\<open>next_chunk()\<close> returns \<^verbatim>\<open>(status, response)\<close>: whether a status object came, and the
          response dictionary or \<^verbatim>\<open>None\<close>\<close>

datatype auth =
    Auth_raises
  | Auth bool bool
      \<comment> \<open>\<^verbatim>\<open>get_youtube_service()\<close>: whether it returned a service, and whether it saved the
          token file on the way\<close>

record world =
  GOOGLE_CREDENTIALS_JSON_CONTENT :: "string option"
  YOUTUBE_CLIENT_SECRET_JSON_CONTENT :: "string option"
  YOUTUBE_TOKEN_PICKLE_BASE64 :: "string option"
  token_decodes :: bool                       \<comment> \<open>\<^verbatim>\<open>b64decode\<close> and the write succeed\<close>
  initial_files :: "string set"               \<comment> \<open>paths that exist when the run starts\<close>
  http_post :: "string \<Rightarrow> response"           \<comment> \<open>by sign\<close>
  synthesize_speech :: "string \<Rightarrow> bool"       \<comment> \<open>by text: text-to-speech writes the MP3\<close>
  render_text :: "string \<Rightarrow> bool"             \<comment> \<open>by text: \<^verbatim>\<open>TextClip(...)\<close> does not raise\<close>
  load_image :: "string \<Rightarrow> bool"              \<comment> \<open>by path: \<^verbatim>\<open>ImageClip(...).resize(...)\<close> does not raise\<close>
  load_audio :: "string \<Rightarrow> real option"       \<comment> \<open>by path: the duration \<^verbatim>\<open>AudioFileClip(...)\<close> measures\<close>
  concatenate_ok :: bool
  write_videofile_ok :: bool
  youtube_auth :: auth
  media_upload_ok :: bool                     \<comment> \<open>\<^verbatim>\<open>MediaFileUpload(...)\<close> and \<^verbatim>\<open>insert(...)\<close> do not raise\<close>
  next_chunk :: "nat \<Rightarrow> chunk"                \<comment> \<open>what the k-th call of \<^verbatim>\<open>request.next_chunk()\<close> does\<close>
  builtin_str :: "pyval \<Rightarrow> string"            \<comment> \<open>Python's \<^verbatim>\<open>str()\<close> on a value that is not a string\<close>
  round_float :: "real \<Rightarrow> real"               \<comment> \<open>the float that an exact result is rounded to\<close>

subsection \<open>\<^verbatim>\<open>create_segment_video\<close>\<close>

text \<open>
  The body of the \<^verbatim>\<open>try\<close> (lines 116-148). The four constructors can raise, in this order:
  caption text, title text, image, audio. Every layer is given \<open>segment_duration\<close>; the
  audio is truncated only when it is strictly longer; the last step sets the segment's
  duration to the audio's.
\<close>

definition segment_try ::
  "world \<Rightarrow> string \<Rightarrow> string \<Rightarrow> string \<Rightarrow> string \<Rightarrow> real \<Rightarrow> error + video_clip" where
  "segment_try w sign_name horoscope_text image_path audio_path segment_duration =
     (if \<not> render_text w horoscope_text then Inl MediaError
      else let txt_clip = TextClip horoscope_text segment_duration in
      if \<not> render_text w (capitalize sign_name) then Inl MediaError
      else let sign_title_clip = TextClip (capitalize sign_name) segment_duration in
      if \<not> load_image w image_path then Inl MediaError
      else let image_clip = ImageClip image_path segment_duration in
      case load_audio w audio_path of
        None \<Rightarrow> Inl MediaError
      | Some d \<Rightarrow>
          let audio_clip0 = AudioFileClip audio_path d;
              audio_clip =
                (if audio_duration audio_clip0 > segment_duration
                 then Subclip audio_clip0 0 segment_duration
                 else audio_clip0);
              video_segment = CompositeVideoClip [image_clip, sign_title_clip, txt_clip];
              video_segment = set_audio audio_clip video_segment;
              video_segment = set_duration (audio_duration audio_clip) video_segment
          in Inr video_segment)"

text \<open>The fallback of the \<^verbatim>\<open>except\<close> branch (lines 153-158): the image alone under the audio.\<close>

definition segment_fallback :: "world \<Rightarrow> string \<Rightarrow> string \<Rightarrow> error + video_clip" where
  "segment_fallback w image_path audio_path =
     (case load_audio w audio_path of
        None \<Rightarrow> Inl MediaError
      | Some d \<Rightarrow>
          let audio_clip_fallback = AudioFileClip audio_path d in
          if \<not> load_image w image_path then Inl MediaError
          else
            let image_clip_fallback = ImageClip image_path (audio_duration audio_clip_fallback)
            in Inr (set_audio audio_clip_fallback (CompositeVideoClip [image_clip_fallback])))"

text \<open>\<^verbatim>\<open>None\<close> is returned when the fallback raises as well.\<close>

definition create_segment_video ::
  "world \<Rightarrow> string \<Rightarrow> string \<Rightarrow> string \<Rightarrow> string \<Rightarrow> real \<Rightarrow> video_clip option" where
  "create_segment_video w sign_name horoscope_text image_path audio_path segment_duration =
     (case segment_try w sign_name horoscope_text image_path audio_path segment_duration of
        Inr video_segment \<Rightarrow> Some video_segment
      | Inl e \<Rightarrow>
          (case segment_fallback w image_path audio_path of
             Inr video_segment_fallback \<Rightarrow> Some video_segment_fallback
           | Inl fallback_e \<Rightarrow> None))"

subsection \<open>Configuration\<close>

definition OUTPUT_DIR :: string where "OUTPUT_DIR = ''output''"
definition IMAGE_DIR :: string where "IMAGE_DIR = ''images''"

definition path_join :: "string \<Rightarrow> string \<Rightarrow> string" where
  "path_join dir name = dir @ ''/'' @ name"

definition CLIENT_SECRETS_FILE_TEMP :: string where
  "CLIENT_SECRETS_FILE_TEMP = path_join OUTPUT_DIR ''client_secret.json''"
definition TOKEN_PICKLE_FILE_TEMP :: string where
  "TOKEN_PICKLE_FILE_TEMP = path_join OUTPUT_DIR ''token.pickle''"
definition SERVICE_ACCOUNT_FILE_TEMP :: string where
  "SERVICE_ACCOUNT_FILE_TEMP = path_join OUTPUT_DIR ''service_account.json''"

definition ZODIAC_SIGNS :: "string list" where
  "ZODIAC_SIGNS = [''aries'', ''taurus'', ''gemini'', ''cancer'', ''leo'', ''virgo'',
                   ''libra'', ''scorpio'', ''sagittarius'', ''capricorn'', ''aquarius'', ''pisces'']"

text \<open>An environment variable counts when it is set and not empty.\<close>

definition truthy :: "string option \<Rightarrow> bool" where
  "truthy v = (case v of None \<Rightarrow> False | Some s \<Rightarrow> s \<noteq> [])"

subsection \<open>\<^verbatim>\<open>setup_credentials\<close>\<close>

text \<open>
  The file system is the set of paths that exist. Each credential whose variable is set is
  written to its temporary file; a token that does not decode is reported and not written.
\<close>

definition setup_credentials :: "world \<Rightarrow> string set \<Rightarrow> string set" where
  "setup_credentials w fs =
     (let fs = (if truthy (GOOGLE_CREDENTIALS_JSON_CONTENT w)
                then insert SERVICE_ACCOUNT_FILE_TEMP fs else fs);
          fs = (if truthy (YOUTUBE_CLIENT_SECRET_JSON_CONTENT w)
                then insert CLIENT_SECRETS_FILE_TEMP fs else fs);
          fs = (if truthy (YOUTUBE_TOKEN_PICKLE_BASE64 w) \<and> token_decodes w
                then insert TOKEN_PICKLE_FILE_TEMP fs else fs)
      in fs)"

text \<open>
  Line 49, as it stands in the source, assigns the path of the service-account file to
  \<^verbatim>\<open>os.environ\<close> itself: when the Google variable is set, \<^verbatim>\<open>os.environ\<close> is a string from
  then on (\<open>Some\<close> of it below); otherwise it is still the process environment (\<open>None\<close>).
  The script never reads \<^verbatim>\<open>os.environ\<close> again. What the libraries do when they find a
  string there is theirs to answer: an \<^verbatim>\<open>AttributeError\<close> out of the HTTP client, say, is the
  answer \<open>Request_crashes AttributeError\<close> of \<open>http_post\<close>.
\<close>

definition environ_after_setup :: "world \<Rightarrow> string option" where
  "environ_after_setup w =
     (if truthy (GOOGLE_CREDENTIALS_JSON_CONTENT w) then Some SERVICE_ACCOUNT_FILE_TEMP else None)"

text \<open>Lines 372-377: the clean-up at the end of \<^verbatim>\<open>main\<close>.\<close>

definition remove_credentials :: "world \<Rightarrow> string set \<Rightarrow> string set" where
  "remove_credentials w fs =
     (let fs = (if truthy (GOOGLE_CREDENTIALS_JSON_CONTENT w) \<and> SERVICE_ACCOUNT_FILE_TEMP \<in> fs
                then fs - {SERVICE_ACCOUNT_FILE_TEMP} else fs);
          fs = (if truthy (YOUTUBE_CLIENT_SECRET_JSON_CONTENT w) \<and> CLIENT_SECRETS_FILE_TEMP \<in> fs
                then fs - {CLIENT_SECRETS_FILE_TEMP} else fs);
          fs = (if truthy (YOUTUBE_TOKEN_PICKLE_BASE64 w) \<and> TOKEN_PICKLE_FILE_TEMP \<in> fs
                then fs - {TOKEN_PICKLE_FILE_TEMP} else fs)
      in fs)"

subsection \<open>\<^verbatim>\<open>fetch_horoscope\<close>\<close>

text \<open>
  \<^verbatim>\<open>value[:50]\<close>: strings and lists can be sliced, nothing else can. Line 77 slices
  \<^verbatim>\<open>data.get('description')\<close> for the log before line 78 returns the value.
\<close>

fun slice50 :: "pyval \<Rightarrow> error + pyval" where
  "slice50 (PStr s) = Inr (PStr (take 50 s))"
| "slice50 (PList xs) = Inr (PList (take 50 xs))"
| "slice50 v = Inl TypeError"

definition apology :: "string \<Rightarrow> string" where
  "apology sign = ''Apologies, '' @ sign @ ''. We couldn't retrieve your horoscope at this moment.''"

definition fetch_horoscope :: "world \<Rightarrow> string \<Rightarrow> error + pyval" where
  "fetch_horoscope w sign =
     (case http_post w sign of
        Request_fails \<Rightarrow> Inr (PStr (apology sign))
      | Request_crashes e \<Rightarrow>
          (if e = RequestException then Inr (PStr (apology sign)) else Inl e)
      | Json data \<Rightarrow>
          (case data of
             PDict items \<Rightarrow>
               (case slice50 (case map_of items ''description'' of None \<Rightarrow> PNone | Some v \<Rightarrow> v) of
                  Inl e \<Rightarrow> Inl e
                | Inr shown \<Rightarrow>
                    Inr (case map_of items ''description'' of
                           None \<Rightarrow> PStr ''Could not fetch horoscope today.''
                         | Some v \<Rightarrow> v))
           | _ \<Rightarrow> Inl AttributeError))"

text \<open>Line 264: the test that makes the driver skip a sign.\<close>

fun is_falsy :: "pyval \<Rightarrow> bool" where
  "is_falsy PNone = True"
| "is_falsy (PBool b) = (\<not> b)"
| "is_falsy (PNum n) = (n = 0)"
| "is_falsy (PStr s) = (s = [])"
| "is_falsy (PList xs) = (xs = [])"
| "is_falsy (PDict items) = (items = [])"

fun py_in :: "string \<Rightarrow> pyval \<Rightarrow> bool" where
  "py_in sub (PStr s) = str_contains s sub"
| "py_in sub (PList xs) = (PStr sub \<in> set xs)"
| "py_in sub (PDict items) = (sub \<in> fst ` set items)"
| "py_in sub v = False"

definition skip_fetch :: "pyval \<Rightarrow> bool" where
  "skip_fetch raw_horoscope =
     (is_falsy raw_horoscope \<or> py_in ''Could not fetch'' raw_horoscope
        \<or> py_in ''couldn't retrieve'' raw_horoscope)"

subsection \<open>\<^verbatim>\<open>regenerate_text\<close> and \<^verbatim>\<open>text_to_speech_google\<close>\<close>

definition py_str :: "world \<Rightarrow> pyval \<Rightarrow> string" where
  "py_str w v = (case v of PStr s \<Rightarrow> s | _ \<Rightarrow> builtin_str w v)"

definition regenerate_text :: "world \<Rightarrow> pyval \<Rightarrow> string \<Rightarrow> string" where
  "regenerate_text w text sign =
     ''Hello '' @ capitalize sign @ '', your horoscope for today: '' @ py_str w text
       @ '' Have a wonderful day!''"

text \<open>Every exception is caught inside; the result says whether the MP3 was written.\<close>

definition text_to_speech_google :: "world \<Rightarrow> string \<Rightarrow> string \<Rightarrow> string set \<Rightarrow> bool \<times> string set" where
  "text_to_speech_google w text_input output_filepath fs =
     (if synthesize_speech w text_input then (True, insert output_filepath fs) else (False, fs))"

subsection \<open>Chapter labels\<close>

definition digit :: "nat \<Rightarrow> char" where
  "digit n = ''0123456789'' ! n"

fun decimal :: "nat \<Rightarrow> string" where
  "decimal n = (if n < 10 then [digit n] else decimal (n div 10) @ [digit (n mod 10)])"

declare decimal.simps [simp del]

text \<open>The format \<^verbatim>\<open>{:02d}\<close>: at least two characters, zeros on the left, the sign counted.\<close>

definition format_02d :: "int \<Rightarrow> string" where
  "format_02d i =
     (if i < 0 then ''-'' @ decimal (nat (- i))
      else if i < 10 then ''0'' @ decimal (nat i)
      else decimal (nat i))"

text \<open>Lines 313-315, on the running timestamp \<open>t\<close>.\<close>

definition minutes_of :: "real \<Rightarrow> int" where
  "minutes_of t = \<lfloor>t / 60\<rfloor>"

definition seconds_of :: "real \<Rightarrow> int" where
  "seconds_of t = \<lfloor>t - 60 * of_int \<lfloor>t / 60\<rfloor>\<rfloor>"

definition chapter_label :: "real \<Rightarrow> string \<Rightarrow> string" where
  "chapter_label t sign =
     format_02d (minutes_of t) @ '':'' @ format_02d (seconds_of t) @ '' '' @ capitalize sign"

subsection \<open>The loop over the signs (lines 257-318)\<close>

datatype call =
    Call_concatenate_videoclips
  | Call_write_videofile
  | Call_get_youtube_service
  | Call_upload_video_to_youtube string     \<comment> \<open>with the description it is given\<close>

record run_state =
  files :: "string set"
  os_environ :: "string option"              \<comment> \<open>\<open>Some s\<close> once line 49 has made it the string \<open>s\<close>\<close>
  all_video_segments :: "video_clip list"
  youtube_description_parts :: "string list"
  current_timestamp_seconds :: real
  calls :: "call list"                       \<comment> \<open>the later stages entered so far, in order\<close>

text \<open>The sum of two floats: the exact sum, rounded to a float.\<close>

definition float_add :: "world \<Rightarrow> real \<Rightarrow> real \<Rightarrow> real" where
  "float_add w x y = round_float w (x + y)"

text \<open>
  One iteration. \<open>Inr\<close> with the state unchanged (but for the MP3 written) is a
  \<^verbatim>\<open>continue\<close>; \<open>Inl\<close> is an exception that leaves \<^verbatim>\<open>main\<close>: neither
  \<^verbatim>\<open>fetch_horoscope(sign)\<close> on line 263 nor \<^verbatim>\<open>AudioFileClip(audio_filepath)\<close> on
  line 301 is inside a \<^verbatim>\<open>try\<close>.

  Line 316 adds the segment's duration to the running timestamp with \<open>float_add\<close>. The
  \<open>d + 1.0\<close> of line 302 is left exact: the builder only compares it with \<open>d\<close> and puts it
  on the layers, and a float sum \<open>d + 1.0\<close> is never below \<open>d\<close> either.
\<close>

definition process_sign :: "world \<Rightarrow> string \<Rightarrow> run_state \<Rightarrow> error + run_state" where
  "process_sign w sign st =
     (case fetch_horoscope w sign of
        Inl e \<Rightarrow> Inl e
      | Inr raw_horoscope \<Rightarrow>
          if skip_fetch raw_horoscope then Inr st
          else
            let regenerated_horoscope = regenerate_text w raw_horoscope sign;
                audio_filepath = path_join OUTPUT_DIR (sign @ ''_horoscope.mp3'');
                spoken = text_to_speech_google w regenerated_horoscope audio_filepath (files st)
            in
            if \<not> fst spoken then Inr st
            else
              let st = st\<lparr>files := snd spoken\<rparr>;
                  image_filepath = path_join IMAGE_DIR (map lower_char sign @ ''.jpg'');
                  generic_image_path = path_join IMAGE_DIR ''default.jpg''
              in
              if image_filepath \<notin> files st \<and> generic_image_path \<notin> files st then Inr st
              else
                let image_filepath =
                      (if image_filepath \<in> files st then image_filepath else generic_image_path)
                in
                case load_audio w audio_filepath of
                  None \<Rightarrow> Inl MediaError
                | Some d \<Rightarrow>
                    let segment_duration = d + 1.0 in
                    (case create_segment_video w sign regenerated_horoscope image_filepath
                            audio_filepath segment_duration of
                       Some video_segment \<Rightarrow>
                         Inr (st\<lparr>all_video_segments := all_video_segments st @ [video_segment],
                                 youtube_description_parts :=
                                   youtube_description_parts st
                                     @ [chapter_label (current_timestamp_seconds st) sign],
                                 current_timestamp_seconds :=
                                   float_add w (current_timestamp_seconds st)
                                     (duration video_segment)\<rparr>)
                     | None \<Rightarrow> Inr st))"

fun topic_loop :: "world \<Rightarrow> string list \<Rightarrow> run_state \<Rightarrow> error + run_state" where
  "topic_loop w [] st = Inr st"
| "topic_loop w (sign # signs) st =
     (case process_sign w sign st of
        Inl e \<Rightarrow> Inl e
      | Inr st' \<Rightarrow> topic_loop w signs st')"

subsection \<open>\<^verbatim>\<open>upload_video_to_youtube\<close>\<close>

text \<open>
  The loop of lines 238-241, from the \<open>k\<close>-th call of \<^verbatim>\<open>next_chunk()\<close> on. It stops at the
  first response that is not \<^verbatim>\<open>None\<close> or at the first exception, and gives back how many
  calls had been made by then. Nothing bounds the number of rounds: an endpoint that never
  answers keeps the loop running, and the value is \<open>None\<close>.
\<close>

partial_function (option) next_chunk_loop ::
  "(nat \<Rightarrow> chunk) \<Rightarrow> nat \<Rightarrow> ((error + (string \<times> string) list) \<times> nat) option" where
  "next_chunk_loop request k =
     (case request k of
        Chunk_raises \<Rightarrow> Some (Inl UploadError, Suc k)
      | Chunk status None \<Rightarrow> next_chunk_loop request (Suc k)
      | Chunk status (Some response) \<Rightarrow> Some (Inr response, Suc k))"

text \<open>
  The whole function: the identifier \<^verbatim>\<open>response['id']\<close>, or \<^verbatim>\<open>None\<close> after any exception
  (a response without \<^verbatim>\<open>'id'\<close> raises \<^verbatim>\<open>KeyError\<close>, caught like the others); with it, the
  number of \<^verbatim>\<open>next_chunk()\<close> calls made.
\<close>

definition upload_video_to_youtube :: "world \<Rightarrow> (string option \<times> nat) option" where
  "upload_video_to_youtube w =
     (if \<not> media_upload_ok w then Some (None, 0)
      else
        case next_chunk_loop (next_chunk w) 0 of
          None \<Rightarrow> None
        | Some (Inl e, n) \<Rightarrow> Some (None, n)
        | Some (Inr response, n) \<Rightarrow> Some (map_of response ''id'', n))"

subsection \<open>\<^verbatim>\<open>main\<close>\<close>

datatype exit_path =
    No_segments       \<comment> \<open>the \<^verbatim>\<open>return\<close> of line 326\<close>
  | Write_failed      \<comment> \<open>the \<^verbatim>\<open>return\<close> of line 346\<close>
  | Finished          \<comment> \<open>the end of the function, line 379\<close>

definition final_video_filepath :: string where
  "final_video_filepath = path_join OUTPUT_DIR ''daily_horoscope_compilation.mp4''"

definition join_lines :: "string list \<Rightarrow> string" where
  "join_lines xs = (case xs of [] \<Rightarrow> [] | y # ys \<Rightarrow> y @ concat (map (\<lambda>z. CHR 0x0A # z) ys))"

definition initial_state :: "world \<Rightarrow> run_state" where
  "initial_state w =
     \<lparr>files = setup_credentials w (initial_files w),
      os_environ = environ_after_setup w,
      all_video_segments = [],
      youtube_description_parts = [],
      current_timestamp_seconds = 0,
      calls = []\<rparr>"

definition entered :: "call \<Rightarrow> run_state \<Rightarrow> run_state" where
  "entered c st = st\<lparr>calls := calls st @ [c]\<rparr>"

text \<open>
  The result is \<open>None\<close> when the upload loop never ends, \<open>Some (Inl e)\<close> when an exception
  leaves \<^verbatim>\<open>main\<close>, and otherwise the way \<^verbatim>\<open>main\<close> returned with the state at that point.
  The two early \<^verbatim>\<open>return\<close>s leave before the clean-up of lines 372-377.
\<close>

definition main :: "world \<Rightarrow> (error + exit_path \<times> run_state) option" where
  "main w =
     (case topic_loop w ZODIAC_SIGNS (initial_state w) of
        Inl e \<Rightarrow> Some (Inl e)
      | Inr st \<Rightarrow>
          if all_video_segments st = [] then Some (Inr (No_segments, st))
          else
            let st = entered Call_concatenate_videoclips st in
            if \<not> concatenate_ok w then Some (Inl MediaError)
            else
              let st = entered Call_write_videofile st in
              if \<not> write_videofile_ok w then Some (Inr (Write_failed, st))
              else
                let st = st\<lparr>files := insert final_video_filepath (files st)\<rparr>;
                    st = entered Call_get_youtube_service st
                in
                case youtube_auth w of
                  Auth_raises \<Rightarrow> Some (Inl AuthError)
                | Auth youtube_service token_saved \<Rightarrow>
                    let st = (if token_saved
                              then st\<lparr>files := insert TOKEN_PICKLE_FILE_TEMP (files st)\<rparr> else st)
                    in
                    if youtube_service \<and> final_video_filepath \<in> files st then
                      let video_description = join_lines (youtube_description_parts st);
                          st = entered (Call_upload_video_to_youtube video_description) st
                      in
                      (case upload_video_to_youtube w of
                         None \<Rightarrow> None
                       | Some uploaded \<Rightarrow>
                           Some (Inr (Finished, st\<lparr>files := remove_credentials w (files st)\<rparr>)))
                    else Some (Inr (Finished, st\<lparr>files := remove_credentials w (files st)\<rparr>)))"

subsection \<open>Worlds used in the examples\<close>

text \<open>
  A run in which nothing goes wrong: the two YouTube credentials come from the environment
  (the Google variable is not set, so \<^verbatim>\<open>os.environ\<close> stays what it was), every sign has a
  description, an image and an MP3 of 12.3 seconds, and the upload answers at the first
  call. The runs evaluated on this world add no durations, or 12.5 and 8.0 only, whose sum
  is a float: \<open>round_float\<close> gives back what it is given. Rounding shows in
  \<open>rounding_world\<close> below.
\<close>

definition calm_world :: world where
  "calm_world =
     \<lparr>GOOGLE_CREDENTIALS_JSON_CONTENT = None,
      YOUTUBE_CLIENT_SECRET_JSON_CONTENT = Some ''{}'',
      YOUTUBE_TOKEN_PICKLE_BASE64 = Some ''gASVCg=='',
      token_decodes = True,
      initial_files = (\<lambda>sign. path_join IMAGE_DIR (sign @ ''.jpg'')) ` set ZODIAC_SIGNS,
      http_post = (\<lambda>sign. Json (PDict [(''description'', PStr ''A calm day.'')])),
      synthesize_speech = (\<lambda>text. True),
      render_text = (\<lambda>text. True),
      load_image = (\<lambda>path. True),
      load_audio = (\<lambda>path. Some 12.3),
      concatenate_ok = True,
      write_videofile_ok = True,
      youtube_auth = Auth True False,
      media_upload_ok = True,
      next_chunk = (\<lambda>k. Chunk False (Some [(''id'', ''v1'')])),
      builtin_str = (\<lambda>v. []),
      round_float = (\<lambda>x. x)\<rparr>"

subsection \<open>The specification's wording of a chapter label\<close>

text \<open>
  The label as the specification describes it: the offset cut to whole seconds (towards
  zero, not rounded), shown as minutes and seconds, each padded with zeros to two digits.
\<close>

definition truncate_seconds :: "real \<Rightarrow> int" where
  "truncate_seconds t = (if 0 \<le> t then \<lfloor>t\<rfloor> else \<lceil>t\<rceil>)"

definition zero_padded :: "nat \<Rightarrow> string" where
  "zero_padded n = (if n < 10 then CHR ''0'' # decimal n else decimal n)"

definition mmss_spec :: "real \<Rightarrow> string" where
  "mmss_spec t =
     zero_padded (nat (truncate_seconds t) div 60) @ '':''
       @ zero_padded (nat (truncate_seconds t) mod 60)"

text \<open>
  What rounding to the nearest float has, and all that the properties below need of it: a
  larger real never rounds to a smaller float, 0 is a float, and a float rounds to itself.
\<close>

definition sound_rounding :: "world \<Rightarrow> bool" where
  "sound_rounding w =
     (mono (round_float w) \<and> round_float w 0 = 0 \<and>
      (\<forall>x. round_float w (round_float w x) = round_float w x))"

text \<open>
  The labels of a timeline whose first segment starts at \<open>t\<close>: each label is taken at the
  start of its segment, and the next one starts where that segment ends.
\<close>

fun labels_from :: "world \<Rightarrow> real \<Rightarrow> string list \<Rightarrow> video_clip list \<Rightarrow> string list" where
  "labels_from w t (sign # signs) (seg # segs) =
     chapter_label t sign # labels_from w (float_add w t (duration seg)) signs segs"
| "labels_from w t signs segs = []"

definition audio_filepath_of :: "string \<Rightarrow> string" where
  "audio_filepath_of sign = path_join OUTPUT_DIR (sign @ ''_horoscope.mp3'')"

text \<open>
  The offset at which the \<open>i\<close>-th segment of a list starts: the sum of the durations of
  the segments before it, added one after the other from 0 the way the program adds floats.
\<close>

definition offset_of :: "world \<Rightarrow> video_clip list \<Rightarrow> nat \<Rightarrow> real" where
  "offset_of w segs i = foldl (float_add w) 0 (map duration (take i segs))"

text \<open>
  The segment that the loop builds for a sign carries that sign's MP3, whole, and lasts as
  long as it.
\<close>

definition built_for :: "world \<Rightarrow> string \<Rightarrow> video_clip \<Rightarrow> bool" where
  "built_for w sign seg =
     (load_audio w (audio_filepath_of sign) = Some (duration seg) \<and>
      audio seg = Some (AudioFileClip (audio_filepath_of sign) (duration seg)))"

text \<open>
  Two topics, with audio of 12.5 and 8.0 seconds. Aries and Leo have a description; the
  request for every other sign fails.
\<close>

definition two_sign_world :: world where
  "two_sign_world =
     calm_world
       \<lparr>http_post :=
          (\<lambda>sign. if sign = ''aries'' \<or> sign = ''leo''
                   then Json (PDict [(''description'', PStr ''A calm day.'')])
                   else Request_fails),
        load_audio :=
          (\<lambda>path. if path = ''output/aries_horoscope.mp3'' then Some 12.5 else Some 8.0)\<rparr>"

definition aries_segment :: video_clip where
  "aries_segment =
     \<lparr>layers =
        [ImageClip ''images/aries.jpg'' 13.5, TextClip ''Aries'' 13.5,
         TextClip ''Hello Aries, your horoscope for today: A calm day. Have a wonderful day!'' 13.5],
      audio = Some (AudioFileClip ''output/aries_horoscope.mp3'' 12.5),
      duration = 12.5\<rparr>"

definition leo_segment :: video_clip where
  "leo_segment =
     \<lparr>layers =
        [ImageClip ''images/leo.jpg'' 9.0, TextClip ''Leo'' 9.0,
         TextClip ''Hello Leo, your horoscope for today: A calm day. Have a wonderful day!'' 9.0],
      audio = Some (AudioFileClip ''output/leo_horoscope.mp3'' 8.0),
      duration = 8.0\<rparr>"

definition two_sign_final :: run_state where
  "two_sign_final =
     \<lparr>files = insert ''output/leo_horoscope.mp3''
                (insert ''output/aries_horoscope.mp3'' (files (initial_state two_sign_world))),
      os_environ = None,
      all_video_segments = [aries_segment, leo_segment],
      youtube_description_parts = [''00:00 Aries'', ''00:12 Leo''],
      current_timestamp_seconds = 20.5,
      calls = []\<rparr>"

text \<open>A day on which every request fails, and a day on which the final video cannot be written.\<close>

definition silent_world :: world where
  "silent_world = calm_world\<lparr>http_post := (\<lambda>sign. Request_fails)\<rparr>"

definition unwritable_world :: world where
  "unwritable_world = two_sign_world\<lparr>write_videofile_ok := False\<rparr>"

text \<open>An endpoint that reports progress three times before it answers.\<close>

definition slow_upload_world :: world where
  "slow_upload_world =
     calm_world
       \<lparr>next_chunk :=
          (\<lambda>k. if k < 3 then Chunk True None else Chunk False (Some [(''id'', ''v1'')]))\<rparr>"

text \<open>A service that answers with an object that has no description.\<close>

definition no_description_world :: world where
  "no_description_world = calm_world\<lparr>http_post := (\<lambda>sign. Json (PDict []))\<rparr>"

text \<open>
  A day on which rounding shows. Aries, Leo and Virgo have a description; their MP3s last
  the float nearest 25.2, the float nearest 34.8 and 8 seconds. The two first add up to
  \<open>60 - 1 / 2 ^ 48\<close>, which is no float: binary64 arithmetic rounds it to 60. The three
  sums of this run are \<open>0 + 25.2\<close> and \<open>60 + 8\<close>, both exact, and that one; \<open>round_float\<close>
  answers each as binary64 arithmetic does.
\<close>

definition float_25_2 :: real where
  "float_25_2 = 7093169413108531 / 281474976710656"

definition float_34_8 :: real where
  "float_34_8 = 2448832297382707 / 70368744177664"

definition rounding_world :: world where
  "rounding_world =
     calm_world
       \<lparr>http_post :=
          (\<lambda>sign. if sign = ''aries'' \<or> sign = ''leo'' \<or> sign = ''virgo''
                   then Json (PDict [(''description'', PStr ''A calm day.'')])
                   else Request_fails),
        load_audio :=
          (\<lambda>path. if path = ''output/aries_horoscope.mp3'' then Some float_25_2
                   else if path = ''output/leo_horoscope.mp3'' then Some float_34_8
                   else Some 8.0),
        round_float := (\<lambda>x. if x = float_25_2 + float_34_8 then 60 else x)\<rparr>"

text \<open>The segment built on such a day for a sign whose MP3 lasts \<open>d\<close>.\<close>

definition calm_segment :: "string \<Rightarrow> real \<Rightarrow> video_clip" where
  "calm_segment sign d =
     \<lparr>layers =
        [ImageClip (''images/'' @ sign @ ''.jpg'') (d + 1.0),
         TextClip (capitalize sign) (d + 1.0),
         TextClip (''Hello '' @ capitalize sign
                     @ '', your horoscope for today: A calm day. Have a wonderful day!'') (d + 1.0)],
      audio = Some (AudioFileClip (''output/'' @ sign @ ''_horoscope.mp3'') d),
      duration = d\<rparr>"

definition rounding_final :: run_state where
  "rounding_final =
     \<lparr>files = insert ''output/virgo_horoscope.mp3''
                (insert ''output/leo_horoscope.mp3''
                  (insert ''output/aries_horoscope.mp3'' (files (initial_state rounding_world)))),
      os_environ = None,
      all_video_segments =
        [calm_segment ''aries'' float_25_2, calm_segment ''leo'' float_34_8,
         calm_segment ''virgo'' 8.0],
      youtube_description_parts = [''00:00 Aries'', ''00:25 Leo'', ''01:00 Virgo''],
      current_timestamp_seconds = 68,
      calls = []\<rparr>"

section \<open>Properties\<close>

subsection \<open>What \<^verbatim>\<open>create_segment_video\<close> returns\<close>

text \<open>
  When the audio is not longer than \<open>segment_duration\<close>, the \<^verbatim>\<open>try\<close> body can only return
  the three layers under the untruncated audio, lasting as long as the audio.
\<close>

lemma segment_try_Inr:
  assumes "segment_try w s t i a sd = Inr v" and "load_audio w a = Some d" and "d \<le> sd"
  shows "v = \<lparr>layers = [ImageClip i sd, TextClip (capitalize s) sd, TextClip t sd],
              audio = Some (AudioFileClip a d), duration = d\<rparr>"
  using assms
  by (auto simp: segment_try_def Let_def CompositeVideoClip_def set_audio_def set_duration_def
           split: if_splits)

lemma segment_fallback_Inr:
  assumes "segment_fallback w i a = Inr v" and "load_audio w a = Some d"
  shows "v = \<lparr>layers = [ImageClip i d], audio = Some (AudioFileClip a d), duration = d\<rparr>"
  using assms
  by (auto simp: segment_fallback_def Let_def CompositeVideoClip_def set_audio_def
           split: if_splits)

lemma create_segment_video_cases:
  assumes "create_segment_video w s t i a sd = Some v"
  shows "segment_try w s t i a sd = Inr v \<or> segment_fallback w i a = Inr v"
  using assms by (auto simp: create_segment_video_def split: sum.splits)

text \<open>
  C1 (as the code has it). The driver passes \<open>segment_duration = d + 1.0\<close> for an audio
  file of duration \<open>d\<close>. Whatever segment comes back, built by the \<^verbatim>\<open>try\<close> body or by the
  fallback, lasts exactly \<open>d\<close>: the one-second pad is not part of the segment's duration.
\<close>

theorem built_duration_is_audio_duration:
  assumes "load_audio w audio_path = Some d"
    and "create_segment_video w sign_name horoscope_text image_path audio_path (d + 1.0) = Some seg"
  shows "duration seg = d"
proof -
  from assms(2) consider
      "segment_try w sign_name horoscope_text image_path audio_path (d + 1.0) = Inr seg"
    | "segment_fallback w image_path audio_path = Inr seg"
    using create_segment_video_cases by blast
  then show ?thesis
  proof cases
    case 1
    from segment_try_Inr [OF 1 assms(1)] show ?thesis by simp
  next
    case 2
    from segment_fallback_Inr [OF 2 assms(1)] show ?thesis by simp
  qed
qed

theorem built_duration_is_audio_duration_witness:
  "load_audio calm_world ''a.mp3'' = Some 12.3 \<and>
   create_segment_video calm_world ''aries'' ''hello'' ''aries.jpg'' ''a.mp3'' (12.3 + 1.0)
     = Some \<lparr>layers = [ImageClip ''aries.jpg'' 13.3, TextClip ''Aries'' 13.3, TextClip ''hello'' 13.3],
             audio = Some (AudioFileClip ''a.mp3'' 12.3), duration = 12.3\<rparr> \<and>
   duration \<lparr>layers = [ImageClip ''aries.jpg'' 13.3, TextClip ''Aries'' 13.3, TextClip ''hello'' 13.3],
             audio = Some (AudioFileClip ''a.mp3'' 12.3), duration = 12.3\<rparr> = 12.3"
proof -
  have a: "load_audio calm_world ''a.mp3'' = Some 12.3" by (simp add: calm_world_def)
  have b: "create_segment_video calm_world ''aries'' ''hello'' ''aries.jpg'' ''a.mp3'' (12.3 + 1.0)
     = Some \<lparr>layers = [ImageClip ''aries.jpg'' 13.3, TextClip ''Aries'' 13.3, TextClip ''hello'' 13.3],
             audio = Some (AudioFileClip ''a.mp3'' 12.3), duration = 12.3\<rparr>"
    by (simp add: create_segment_video_def segment_try_def calm_world_def Let_def
          CompositeVideoClip_def set_audio_def set_duration_def upper_char_def lower_char_def)
  from built_duration_is_audio_duration [OF a b] a b show ?thesis by simp
qed

text \<open>
  The claim as the specification words it asks for \<open>d + 1.0\<close>. For the audio of 12.3
  seconds of the specification's own example the segment lasts 12.3 seconds, not 13.3.
\<close>

theorem built_duration_lacks_pad_counterexample:
  "map_option duration
     (create_segment_video calm_world ''aries'' ''hello'' ''aries.jpg'' ''a.mp3'' (12.3 + 1.0))
     = Some 12.3 \<and>
   map_option duration
     (create_segment_video calm_world ''aries'' ''hello'' ''aries.jpg'' ''a.mp3'' (12.3 + 1.0))
     \<noteq> Some (12.3 + 1.0)"
  by (simp add: create_segment_video_def segment_try_def calm_world_def Let_def
        CompositeVideoClip_def set_audio_def set_duration_def upper_char_def lower_char_def)

text \<open>
  C3 (as the code has it). When a text layer cannot be rendered and the image and the audio
  load, the builder returns the image alone under the whole audio instead of \<^verbatim>\<open>None\<close>.
  That segment lasts as long as the audio, whatever \<open>segment_duration\<close> was passed: the
  fallback never reads it.
\<close>

theorem overlay_failure_degrades:
  assumes "\<not> render_text w horoscope_text \<or> \<not> render_text w (capitalize sign_name)"
    and "load_image w image_path"
    and "load_audio w audio_path = Some d"
  shows "create_segment_video w sign_name horoscope_text image_path audio_path segment_duration
           = Some \<lparr>layers = [ImageClip image_path d],
                   audio = Some (AudioFileClip audio_path d), duration = d\<rparr>"
proof -
  have "segment_try w sign_name horoscope_text image_path audio_path segment_duration
          = Inl MediaError"
    using assms(1) by (auto simp: segment_try_def)
  moreover have "segment_fallback w image_path audio_path
          = Inr \<lparr>layers = [ImageClip image_path d],
                 audio = Some (AudioFileClip audio_path d), duration = d\<rparr>"
    using assms(2,3) by (simp add: segment_fallback_def CompositeVideoClip_def set_audio_def)
  ultimately show ?thesis by (simp add: create_segment_video_def)
qed

theorem overlay_failure_degrades_witness:
  "\<not> render_text (calm_world\<lparr>render_text := (\<lambda>text. False)\<rparr>) ''hello'' \<and>
   load_image (calm_world\<lparr>render_text := (\<lambda>text. False)\<rparr>) ''aries.jpg'' \<and>
   load_audio (calm_world\<lparr>render_text := (\<lambda>text. False)\<rparr>) ''a.mp3'' = Some 12.3 \<and>
   create_segment_video (calm_world\<lparr>render_text := (\<lambda>text. False)\<rparr>)
       ''aries'' ''hello'' ''aries.jpg'' ''a.mp3'' 13.3
     = Some \<lparr>layers = [ImageClip ''aries.jpg'' 12.3],
             audio = Some (AudioFileClip ''a.mp3'' 12.3), duration = 12.3\<rparr>"
proof -
  let ?w = "calm_world\<lparr>render_text := (\<lambda>text. False)\<rparr>"
  have a: "\<not> render_text ?w ''hello'' \<or> \<not> render_text ?w (capitalize ''aries'')" by simp
  have b: "load_image ?w ''aries.jpg''" by (simp add: calm_world_def)
  have c: "load_audio ?w ''a.mp3'' = Some 12.3" by (simp add: calm_world_def)
  have d: "create_segment_video ?w ''aries'' ''hello'' ''aries.jpg'' ''a.mp3'' 13.3
     = Some \<lparr>layers = [ImageClip ''aries.jpg'' 12.3],
             audio = Some (AudioFileClip ''a.mp3'' 12.3), duration = 12.3\<rparr>"
    by (rule overlay_failure_degrades [OF a b c])
  have a': "\<not> render_text ?w ''hello''" by simp
  show ?thesis by (intro conjI a' b c d)
qed

text \<open>
  The claim asks the degraded segment to last the audio's duration plus the pad. With no
  text rendering and an audio of 12.3 seconds, the driver's \<open>segment_duration\<close> is 13.3 and
  the degraded segment lasts 12.3 seconds.
\<close>

theorem degraded_duration_lacks_pad_counterexample:
  "create_segment_video (calm_world\<lparr>render_text := (\<lambda>text. False)\<rparr>)
       ''aries'' ''hello'' ''aries.jpg'' ''a.mp3'' (12.3 + 1.0)
     = Some \<lparr>layers = [ImageClip ''aries.jpg'' 12.3],
             audio = Some (AudioFileClip ''a.mp3'' 12.3), duration = 12.3\<rparr> \<and>
   duration \<lparr>layers = [ImageClip ''aries.jpg'' 12.3],
             audio = Some (AudioFileClip ''a.mp3'' 12.3), duration = 12.3\<rparr> \<noteq> 12.3 + 1.0"
  by (simp add: create_segment_video_def segment_try_def segment_fallback_def calm_world_def
        CompositeVideoClip_def set_audio_def)

text \<open>When the image or the audio cannot be loaded either, nothing is built.\<close>

lemma fallback_failure_returns_None:
  assumes "\<not> load_image w image_path \<or> load_audio w audio_path = None"
  shows "create_segment_video w sign_name horoscope_text image_path audio_path segment_duration
           = None"
  using assms
  by (auto simp: create_segment_video_def segment_try_def segment_fallback_def Let_def
           split: option.splits sum.splits)

text \<open>
  C10. Under the driver's convention \<open>segment_duration = d + 1.0\<close> the test of line 135 is
  false, so the returned segment carries the whole audio file, never a \<^verbatim>\<open>subclip\<close>; and the
  duration of what is returned is the same for every \<open>segment_duration\<close> that is at least
  \<open>d\<close>, the driver's \<open>d + 1.0\<close> among them.
\<close>

theorem truncation_unreachable_under_driver:
  assumes "load_audio w audio_path = Some d"
  shows "\<not> audio_duration (AudioFileClip audio_path d) > d + 1.0 \<and>
         (\<forall>seg. create_segment_video w sign_name horoscope_text image_path audio_path (d + 1.0)
                  = Some seg \<longrightarrow> audio seg = Some (AudioFileClip audio_path d)) \<and>
         (\<forall>sd. d \<le> sd \<longrightarrow>
            map_option duration
              (create_segment_video w sign_name horoscope_text image_path audio_path sd)
            = map_option duration
              (create_segment_video w sign_name horoscope_text image_path audio_path (d + 1.0)))"
proof (intro conjI allI impI)
  show "\<not> audio_duration (AudioFileClip audio_path d) > d + 1.0" by simp
next
  fix seg
  assume built: "create_segment_video w sign_name horoscope_text image_path audio_path (d + 1.0)
                   = Some seg"
  then consider
      "segment_try w sign_name horoscope_text image_path audio_path (d + 1.0) = Inr seg"
    | "segment_fallback w image_path audio_path = Inr seg"
    using create_segment_video_cases by blast
  then show "audio seg = Some (AudioFileClip audio_path d)"
  proof cases
    case 1
    from segment_try_Inr [OF 1 assms] show ?thesis by simp
  next
    case 2
    from segment_fallback_Inr [OF 2 assms] show ?thesis by simp
  qed
next
  fix sd :: real
  assume le: "d \<le> sd"
  have *: "map_option duration
             (create_segment_video w sign_name horoscope_text image_path audio_path x)
           = (if load_image w image_path then Some d else None)" if "d \<le> x" for x
    using assms that
    by (auto simp: create_segment_video_def segment_try_def segment_fallback_def Let_def
          CompositeVideoClip_def set_audio_def set_duration_def)
  show "map_option duration
          (create_segment_video w sign_name horoscope_text image_path audio_path sd)
        = map_option duration
          (create_segment_video w sign_name horoscope_text image_path audio_path (d + 1.0))"
    using * [OF le] * [of "d + 1.0"] by simp
qed

theorem truncation_unreachable_under_driver_witness:
  "load_audio calm_world ''a.mp3'' = Some 12.3 \<and>
   create_segment_video calm_world ''aries'' ''hello'' ''aries.jpg'' ''a.mp3'' (12.3 + 1.0)
     = Some \<lparr>layers = [ImageClip ''aries.jpg'' 13.3, TextClip ''Aries'' 13.3, TextClip ''hello'' 13.3],
             audio = Some (AudioFileClip ''a.mp3'' 12.3), duration = 12.3\<rparr> \<and>
   audio \<lparr>layers = [ImageClip ''aries.jpg'' 13.3, TextClip ''Aries'' 13.3, TextClip ''hello'' 13.3],
             audio = Some (AudioFileClip ''a.mp3'' 12.3), duration = 12.3\<rparr>
     = Some (AudioFileClip ''a.mp3'' 12.3) \<and>
   (12.3 :: real) \<le> 12.3 \<and>
   map_option duration
     (create_segment_video calm_world ''aries'' ''hello'' ''aries.jpg'' ''a.mp3'' 12.3)
   = map_option duration
     (create_segment_video calm_world ''aries'' ''hello'' ''aries.jpg'' ''a.mp3'' (12.3 + 1.0))"
proof -
  have a: "load_audio calm_world ''a.mp3'' = Some 12.3" by (simp add: calm_world_def)
  have b: "create_segment_video calm_world ''aries'' ''hello'' ''aries.jpg'' ''a.mp3'' (12.3 + 1.0)
     = Some \<lparr>layers = [ImageClip ''aries.jpg'' 13.3, TextClip ''Aries'' 13.3, TextClip ''hello'' 13.3],
             audio = Some (AudioFileClip ''a.mp3'' 12.3), duration = 12.3\<rparr>"
    by (simp add: create_segment_video_def segment_try_def calm_world_def Let_def
          CompositeVideoClip_def set_audio_def set_duration_def upper_char_def lower_char_def)
  have e: "audio \<lparr>layers = [ImageClip ''aries.jpg'' 13.3, TextClip ''Aries'' 13.3, TextClip ''hello'' 13.3],
             audio = Some (AudioFileClip ''a.mp3'' 12.3), duration = 12.3\<rparr>
     = Some (AudioFileClip ''a.mp3'' 12.3)"
    by (rule truncation_unreachable_under_driver
          [OF a, THEN conjunct2, THEN conjunct1, rule_format, OF b])
  have le: "(12.3 :: real) \<le> 12.3" by simp
  have c: "map_option duration
     (create_segment_video calm_world ''aries'' ''hello'' ''aries.jpg'' ''a.mp3'' 12.3)
   = map_option duration
     (create_segment_video calm_world ''aries'' ''hello'' ''aries.jpg'' ''a.mp3'' (12.3 + 1.0))"
    by (rule truncation_unreachable_under_driver
          [OF a, THEN conjunct2, THEN conjunct2, rule_format, OF le])
  from a b c e show ?thesis by simp
qed

subsection \<open>Chapter labels\<close>

lemma minutes_of_floor: "minutes_of t = \<lfloor>t\<rfloor> div 60"
  using floor_divide_real_eq_div [of 60 t] by (simp add: minutes_of_def)

lemma seconds_of_floor: "seconds_of t = \<lfloor>t\<rfloor> mod 60"
proof -
  have "seconds_of t = \<lfloor>t - of_int (60 * \<lfloor>t / 60\<rfloor>)\<rfloor>"
    by (simp add: seconds_of_def)
  also have "\<dots> = \<lfloor>t\<rfloor> - 60 * \<lfloor>t / 60\<rfloor>"
    by (simp only: floor_diff_of_int)
  also have "\<dots> = \<lfloor>t\<rfloor> - 60 * (\<lfloor>t\<rfloor> div 60)"
    using minutes_of_floor [of t] by (simp add: minutes_of_def)
  also have "\<dots> = \<lfloor>t\<rfloor> mod 60"
    by (simp add: minus_mult_div_eq_mod)
  finally show ?thesis .
qed

lemma format_02d_nonneg: "0 \<le> i \<Longrightarrow> format_02d i = zero_padded (nat i)"
  by (auto simp: format_02d_def zero_padded_def)

lemma chapter_label_spec:
  assumes "0 \<le> t"
  shows "chapter_label t sign = mmss_spec t @ '' '' @ capitalize sign"
proof -
  have f: "0 \<le> \<lfloor>t\<rfloor>" using assms by simp
  have m: "format_02d (minutes_of t) = zero_padded (nat \<lfloor>t\<rfloor> div 60)"
    using f by (simp add: minutes_of_floor format_02d_nonneg pos_imp_zdiv_nonneg_iff nat_div_distrib)
  have s: "format_02d (seconds_of t) = zero_padded (nat \<lfloor>t\<rfloor> mod 60)"
    using f by (simp add: seconds_of_floor format_02d_nonneg nat_mod_distrib)
  show ?thesis
    using assms by (simp add: chapter_label_def mmss_spec_def truncate_seconds_def m s)
qed

subsection \<open>Sums of floats\<close>

text \<open>Adding a non-negative float to a float never gives less, and gives a float.\<close>

lemma float_add_ge:
  assumes "sound_rounding w" and "round_float w t = t" and "0 \<le> d"
  shows "t \<le> float_add w t d"
proof -
  from assms(1) have m: "mono (round_float w)" by (simp add: sound_rounding_def)
  from assms(3) have "t \<le> t + d" by simp
  with m have "round_float w t \<le> round_float w (t + d)" by (rule monoD)
  with assms(2) show ?thesis by (simp add: float_add_def)
qed

lemma float_add_is_float:
  assumes "sound_rounding w"
  shows "round_float w (float_add w t d) = float_add w t d"
  using assms by (simp add: sound_rounding_def float_add_def)

lemma float_fold_ge:
  assumes "sound_rounding w" and "round_float w t = t" and "\<forall>d \<in> set ds. 0 \<le> d"
  shows "t \<le> foldl (float_add w) t ds \<and>
         round_float w (foldl (float_add w) t ds) = foldl (float_add w) t ds"
  using assms(2,3)
proof (induction ds arbitrary: t)
  case Nil
  then show ?case by simp
next
  case (Cons d ds)
  have step: "t \<le> float_add w t d"
    using float_add_ge [OF assms(1) Cons.prems(1)] Cons.prems(2) by simp
  have "float_add w t d \<le> foldl (float_add w) (float_add w t d) ds \<and>
        round_float w (foldl (float_add w) (float_add w t d) ds)
          = foldl (float_add w) (float_add w t d) ds"
    using Cons.IH [OF float_add_is_float [OF assms(1)]] Cons.prems(2) by simp
  with step show ?case by simp
qed

lemma offset_of_0: "offset_of w segs 0 = 0"
  by (simp add: offset_of_def)

lemma offset_of_Suc:
  assumes "i < length segs"
  shows "offset_of w segs (Suc i) = float_add w (offset_of w segs i) (duration (segs ! i))"
  using assms by (simp add: offset_of_def take_Suc_conv_app_nth)

lemma offset_of_is_float:
  assumes "sound_rounding w" and "\<forall>seg \<in> set segs. 0 \<le> duration seg"
  shows "0 \<le> offset_of w segs i \<and> round_float w (offset_of w segs i) = offset_of w segs i"
proof -
  have zero: "round_float w 0 = 0" using assms(1) by (simp add: sound_rounding_def)
  have "\<forall>d \<in> set (map duration (take i segs)). 0 \<le> d"
    using assms(2) by (auto dest: in_set_takeD)
  from float_fold_ge [OF assms(1) zero this] show ?thesis by (simp add: offset_of_def)
qed

lemma offset_of_mono:
  assumes "sound_rounding w" and "\<forall>seg \<in> set segs. 0 \<le> duration seg" and "i \<le> j"
  shows "offset_of w segs i \<le> offset_of w segs j"
proof -
  have split: "take j segs = take i segs @ take (j - i) (drop i segs)"
    using assms(3) by (metis le_add_diff_inverse take_add)
  have rest: "\<forall>d \<in> set (map duration (take (j - i) (drop i segs))). 0 \<le> d"
    using assms(2) by (auto dest!: in_set_takeD in_set_dropD)
  have "offset_of w segs j
          = foldl (float_add w) (offset_of w segs i) (map duration (take (j - i) (drop i segs)))"
    unfolding offset_of_def by (subst split) simp
  with float_fold_ge [OF assms(1) _ rest, of "offset_of w segs i"]
    offset_of_is_float [OF assms(1,2), of i]
  show ?thesis by simp
qed

subsection \<open>One iteration of the loop\<close>

lemma built_segment_facts:
  assumes "load_audio w a = Some d" and "create_segment_video w s t i a (d + 1.0) = Some seg"
  shows "duration seg = d \<and> audio seg = Some (AudioFileClip a d)"
proof -
  from assms(2) consider "segment_try w s t i a (d + 1.0) = Inr seg"
    | "segment_fallback w i a = Inr seg"
    using create_segment_video_cases by blast
  then show ?thesis
  proof cases
    case 1
    from segment_try_Inr [OF 1 assms(1)] show ?thesis by simp
  next
    case 2
    from segment_fallback_Inr [OF 2 assms(1)] show ?thesis by simp
  qed
qed

text \<open>An iteration that returns either leaves the timeline as it was or appends one segment.\<close>

lemma process_sign_cases:
  assumes "process_sign w sign st = Inr st'"
  shows "(all_video_segments st' = all_video_segments st \<and>
          youtube_description_parts st' = youtube_description_parts st \<and>
          current_timestamp_seconds st' = current_timestamp_seconds st \<and>
          calls st' = calls st)
       \<or> (\<exists>seg d image_path text.
            load_audio w (audio_filepath_of sign) = Some d \<and>
            create_segment_video w sign text image_path (audio_filepath_of sign) (d + 1.0) = Some seg \<and>
            all_video_segments st' = all_video_segments st @ [seg] \<and>
            youtube_description_parts st' =
              youtube_description_parts st @ [chapter_label (current_timestamp_seconds st) sign] \<and>
            current_timestamp_seconds st' =
              float_add w (current_timestamp_seconds st) (duration seg) \<and>
            calls st' = calls st)"
  using assms
  by (auto simp: process_sign_def Let_def audio_filepath_of_def
           split: sum.splits if_splits option.splits)

lemma process_sign_step:
  assumes "process_sign w sign st = Inr st'"
  shows "(all_video_segments st' = all_video_segments st \<and>
          youtube_description_parts st' = youtube_description_parts st \<and>
          current_timestamp_seconds st' = current_timestamp_seconds st \<and>
          calls st' = calls st)
       \<or> (\<exists>seg. built_for w sign seg \<and>
            all_video_segments st' = all_video_segments st @ [seg] \<and>
            youtube_description_parts st' =
              youtube_description_parts st @ [chapter_label (current_timestamp_seconds st) sign] \<and>
            current_timestamp_seconds st' =
              float_add w (current_timestamp_seconds st) (duration seg) \<and>
            calls st' = calls st)"
  using process_sign_cases [OF assms] built_segment_facts
  unfolding built_for_def by metis

subsection \<open>The whole loop\<close>

lemma topic_loop_timeline:
  assumes "topic_loop w signs st = Inr st'"
  shows "\<exists>inc segs. subseq inc signs \<and> list_all2 (built_for w) inc segs \<and>
           all_video_segments st' = all_video_segments st @ segs \<and>
           youtube_description_parts st' =
             youtube_description_parts st @ labels_from w (current_timestamp_seconds st) inc segs \<and>
           current_timestamp_seconds st' =
             foldl (float_add w) (current_timestamp_seconds st) (map duration segs) \<and>
           calls st' = calls st"
  using assms
proof (induction signs arbitrary: st)
  case Nil
  then show ?case by (intro exI [of _ "[]"]) simp
next
  case (Cons sign signs)
  from Cons.prems obtain st1 where
    step: "process_sign w sign st = Inr st1" and rest: "topic_loop w signs st1 = Inr st'"
    by (auto split: sum.splits)
  from Cons.IH [OF rest] obtain inc segs where
    ih: "subseq inc signs" "list_all2 (built_for w) inc segs"
        "all_video_segments st' = all_video_segments st1 @ segs"
        "youtube_description_parts st' =
           youtube_description_parts st1 @ labels_from w (current_timestamp_seconds st1) inc segs"
        "current_timestamp_seconds st' =
           foldl (float_add w) (current_timestamp_seconds st1) (map duration segs)"
        "calls st' = calls st1"
    by blast
  from process_sign_step [OF step] show ?case
  proof (elim disjE exE conjE)
    assume "all_video_segments st1 = all_video_segments st"
      "youtube_description_parts st1 = youtube_description_parts st"
      "current_timestamp_seconds st1 = current_timestamp_seconds st"
      "calls st1 = calls st"
    with ih show ?thesis
      by (intro exI [of _ inc] exI [of _ segs]) (simp add: list_emb_Cons)
  next
    fix seg
    assume "built_for w sign seg"
      "all_video_segments st1 = all_video_segments st @ [seg]"
      "youtube_description_parts st1 =
         youtube_description_parts st @ [chapter_label (current_timestamp_seconds st) sign]"
      "current_timestamp_seconds st1 = float_add w (current_timestamp_seconds st) (duration seg)"
      "calls st1 = calls st"
    with ih show ?thesis
      by (intro exI [of _ "sign # inc"] exI [of _ "seg # segs"]) simp
  qed
qed

lemma labels_from_length:
  "length signs = length segs \<Longrightarrow> length (labels_from w t signs segs) = length segs"
  by (induction w t signs segs rule: labels_from.induct) auto

lemma labels_from_nth:
  "length signs = length segs \<Longrightarrow> i < length segs \<Longrightarrow>
   labels_from w t signs segs ! i
     = chapter_label (foldl (float_add w) t (map duration (take i segs))) (signs ! i)"
proof (induction w t signs segs arbitrary: i rule: labels_from.induct)
  case (1 w t sign signs seg segs)
  then show ?case by (cases i) auto
qed auto

lemma run_timeline:
  assumes "topic_loop w signs (initial_state w) = Inr st"
  shows "\<exists>inc. subseq inc signs \<and> list_all2 (built_for w) inc (all_video_segments st) \<and>
           youtube_description_parts st = labels_from w 0 inc (all_video_segments st) \<and>
           current_timestamp_seconds st
             = offset_of w (all_video_segments st) (length (all_video_segments st)) \<and>
           calls st = []"
  using topic_loop_timeline [OF assms] by (auto simp: initial_state_def offset_of_def)

lemma built_durations_nonneg:
  assumes "list_all2 (built_for w) inc segs"
    and "\<forall>path d. load_audio w path = Some d \<longrightarrow> 0 \<le> d"
  shows "\<forall>seg \<in> set segs. 0 \<le> duration seg"
proof
  fix seg assume "seg \<in> set segs"
  then obtain i where "i < length segs" "segs ! i = seg" by (auto simp: in_set_conv_nth)
  with assms(1) have "built_for w (inc ! i) seg" by (auto simp: list_all2_conv_all_nth)
  with assms(2) show "0 \<le> duration seg" by (auto simp: built_for_def)
qed

text \<open>The run of the example, evaluated once.\<close>

lemma two_sign_run:
  "topic_loop two_sign_world ZODIAC_SIGNS (initial_state two_sign_world) = Inr two_sign_final"
  by (simp add: two_sign_world_def calm_world_def two_sign_final_def aries_segment_def
        leo_segment_def process_sign_def fetch_horoscope_def skip_fetch_def apology_def
        regenerate_text_def py_str_def text_to_speech_google_def path_join_def OUTPUT_DIR_def
        IMAGE_DIR_def create_segment_video_def segment_try_def segment_fallback_def
        CompositeVideoClip_def set_audio_def set_duration_def chapter_label_def minutes_of_def
        seconds_of_def format_02d_def decimal.simps digit_def upper_char_def lower_char_def
        Let_def initial_state_def setup_credentials_def environ_after_setup_def truthy_def
        float_add_def ZODIAC_SIGNS_def)

lemma two_sign_world_nonneg:
  "\<forall>path d. load_audio two_sign_world path = Some d \<longrightarrow> 0 \<le> d"
  by (auto simp: two_sign_world_def split: if_splits)

lemma two_sign_world_rounding: "sound_rounding two_sign_world"
  by (simp add: sound_rounding_def two_sign_world_def calm_world_def mono_def)

text \<open>
  C4 (as the code has it). In every run whose loop returns, the label of the \<open>i\<close>-th
  included segment is taken at the running float sum of the durations of the included
  segments before it: the durations added from 0 in timeline order, each addition rounded
  to a float. That is the timestamp read before the segment's own duration is added, and
  the next offset is this one plus that duration, rounded. The first offset is 0, and the
  timestamp left at the end is the running sum of all the durations. Rounding being
  monotone and audio durations non-negative, the offsets never decrease.
\<close>

theorem chapter_offsets_are_prefix_sums:
  assumes "topic_loop w ZODIAC_SIGNS (initial_state w) = Inr st"
  shows "\<exists>inc. subseq inc ZODIAC_SIGNS \<and>
           length inc = length (all_video_segments st) \<and>
           length (youtube_description_parts st) = length (all_video_segments st) \<and>
           (\<forall>i < length (all_video_segments st).
              youtube_description_parts st ! i
                = chapter_label (offset_of w (all_video_segments st) i) (inc ! i) \<and>
              offset_of w (all_video_segments st) (Suc i)
                = float_add w (offset_of w (all_video_segments st) i)
                    (duration (all_video_segments st ! i))) \<and>
           offset_of w (all_video_segments st) 0 = 0 \<and>
           (sound_rounding w \<and> (\<forall>path d. load_audio w path = Some d \<longrightarrow> 0 \<le> d) \<longrightarrow>
              (\<forall>i j. i \<le> j \<longrightarrow>
                 offset_of w (all_video_segments st) i \<le> offset_of w (all_video_segments st) j)) \<and>
           current_timestamp_seconds st
             = offset_of w (all_video_segments st) (length (all_video_segments st))"
proof -
  from run_timeline [OF assms] obtain inc where
    inc: "subseq inc ZODIAC_SIGNS" "list_all2 (built_for w) inc (all_video_segments st)"
      "youtube_description_parts st = labels_from w 0 inc (all_video_segments st)"
      "current_timestamp_seconds st
         = offset_of w (all_video_segments st) (length (all_video_segments st))"
    by blast
  from inc(2) have len: "length inc = length (all_video_segments st)"
    by (rule list_all2_lengthD)
  have labels: "\<forall>i < length (all_video_segments st).
      youtube_description_parts st ! i
        = chapter_label (offset_of w (all_video_segments st) i) (inc ! i) \<and>
      offset_of w (all_video_segments st) (Suc i)
        = float_add w (offset_of w (all_video_segments st) i)
            (duration (all_video_segments st ! i))"
    using labels_from_nth [OF len, of _ w 0] inc(3) offset_of_Suc [of _ "all_video_segments st" w]
    by (simp add: offset_of_def)
  have mono: "sound_rounding w \<and> (\<forall>path d. load_audio w path = Some d \<longrightarrow> 0 \<le> d) \<longrightarrow>
      (\<forall>i j. i \<le> j \<longrightarrow>
         offset_of w (all_video_segments st) i \<le> offset_of w (all_video_segments st) j)"
    using built_durations_nonneg [OF inc(2)] offset_of_mono by blast
  have plen: "length (youtube_description_parts st) = length (all_video_segments st)"
    using labels_from_length [OF len] inc(3) by simp
  from inc(1) len plen labels offset_of_0 [of w "all_video_segments st"] mono inc(4)
  show ?thesis by blast
qed

theorem chapter_offsets_are_prefix_sums_witness:
  "topic_loop two_sign_world ZODIAC_SIGNS (initial_state two_sign_world) = Inr two_sign_final \<and>
   sound_rounding two_sign_world \<and>
   youtube_description_parts two_sign_final = [''00:00 Aries'', ''00:12 Leo''] \<and>
   offset_of two_sign_world (all_video_segments two_sign_final) 0 = 0 \<and>
   offset_of two_sign_world (all_video_segments two_sign_final) 1 = 12.5 \<and>
   offset_of two_sign_world (all_video_segments two_sign_final) 0
     \<le> offset_of two_sign_world (all_video_segments two_sign_final) 1 \<and>
   current_timestamp_seconds two_sign_final
     = offset_of two_sign_world (all_video_segments two_sign_final) 2 \<and>
   (\<exists>inc. subseq inc ZODIAC_SIGNS \<and>
      youtube_description_parts two_sign_final ! 1
        = chapter_label (offset_of two_sign_world (all_video_segments two_sign_final) 1) (inc ! 1))"
proof -
  from chapter_offsets_are_prefix_sums [OF two_sign_run] obtain inc where
    inc: "subseq inc ZODIAC_SIGNS"
      "\<forall>i < length (all_video_segments two_sign_final).
          youtube_description_parts two_sign_final ! i
            = chapter_label (offset_of two_sign_world (all_video_segments two_sign_final) i) (inc ! i) \<and>
          offset_of two_sign_world (all_video_segments two_sign_final) (Suc i)
            = float_add two_sign_world
                (offset_of two_sign_world (all_video_segments two_sign_final) i)
                (duration (all_video_segments two_sign_final ! i))"
      "offset_of two_sign_world (all_video_segments two_sign_final) 0 = 0"
      "sound_rounding two_sign_world \<and>
         (\<forall>path d. load_audio two_sign_world path = Some d \<longrightarrow> 0 \<le> d) \<longrightarrow>
         (\<forall>i j. i \<le> j \<longrightarrow>
            offset_of two_sign_world (all_video_segments two_sign_final) i
              \<le> offset_of two_sign_world (all_video_segments two_sign_final) j)"
      "current_timestamp_seconds two_sign_final
         = offset_of two_sign_world (all_video_segments two_sign_final)
             (length (all_video_segments two_sign_final))"
    by blast
  have two: "length (all_video_segments two_sign_final) = 2" by (simp add: two_sign_final_def)
  have a: "youtube_description_parts two_sign_final = [''00:00 Aries'', ''00:12 Leo'']"
    by (simp add: two_sign_final_def)
  have b: "offset_of two_sign_world (all_video_segments two_sign_final) 1 = 12.5"
    by (simp add: two_sign_final_def offset_of_def aries_segment_def float_add_def
          two_sign_world_def calm_world_def)
  have c: "offset_of two_sign_world (all_video_segments two_sign_final) 0
             \<le> offset_of two_sign_world (all_video_segments two_sign_final) 1"
    using inc(4) two_sign_world_rounding two_sign_world_nonneg by simp
  have d: "youtube_description_parts two_sign_final ! 1
        = chapter_label (offset_of two_sign_world (all_video_segments two_sign_final) 1) (inc ! 1)"
    using inc(2) two by simp
  have e: "current_timestamp_seconds two_sign_final
             = offset_of two_sign_world (all_video_segments two_sign_final) 2"
    using inc(5) two by simp
  from two_sign_run two_sign_world_rounding a inc(3) b c e inc(1) d show ?thesis by blast
qed

text \<open>
  The claim as the specification words it takes the offset for the sum of the durations.
  On the day described by \<open>rounding_world\<close> the third segment starts at 60 and is labelled
  \<^verbatim>\<open>01:00\<close>, while the two durations before it add up to \<open>60 - 1 / 2 ^ 48\<close>, which would be
  labelled \<^verbatim>\<open>00:59\<close>.
\<close>

theorem offset_is_not_the_exact_sum_counterexample:
  "topic_loop rounding_world ZODIAC_SIGNS (initial_state rounding_world) = Inr rounding_final \<and>
   youtube_description_parts rounding_final ! 2 = ''01:00 Virgo'' \<and>
   offset_of rounding_world (all_video_segments rounding_final) 2 = 60 \<and>
   sum_list (map duration (take 2 (all_video_segments rounding_final))) = 60 - 1 / 2 ^ 48 \<and>
   offset_of rounding_world (all_video_segments rounding_final) 2
     \<noteq> sum_list (map duration (take 2 (all_video_segments rounding_final))) \<and>
   chapter_label (60 - 1 / 2 ^ 48) ''virgo'' = ''00:59 Virgo''"
proof -
  have run: "topic_loop rounding_world ZODIAC_SIGNS (initial_state rounding_world)
               = Inr rounding_final"
    by (simp add: rounding_world_def calm_world_def rounding_final_def calm_segment_def
          float_25_2_def float_34_8_def process_sign_def fetch_horoscope_def skip_fetch_def
          apology_def regenerate_text_def py_str_def text_to_speech_google_def path_join_def
          OUTPUT_DIR_def IMAGE_DIR_def create_segment_video_def segment_try_def
          segment_fallback_def CompositeVideoClip_def set_audio_def set_duration_def
          chapter_label_def minutes_of_def seconds_of_def format_02d_def decimal.simps digit_def
          upper_char_def lower_char_def Let_def initial_state_def setup_credentials_def
          environ_after_setup_def truthy_def float_add_def ZODIAC_SIGNS_def)
  have label: "youtube_description_parts rounding_final ! 2 = ''01:00 Virgo''"
    by (simp add: rounding_final_def)
  have offset: "offset_of rounding_world (all_video_segments rounding_final) 2 = 60"
    by (simp add: offset_of_def rounding_final_def calm_segment_def float_add_def
          rounding_world_def calm_world_def float_25_2_def float_34_8_def numeral_2_eq_2)
  have exact: "sum_list (map duration (take 2 (all_video_segments rounding_final)))
                 = 60 - 1 / 2 ^ 48"
    by (simp add: rounding_final_def calm_segment_def float_25_2_def float_34_8_def
          numeral_2_eq_2)
  have differ: "offset_of rounding_world (all_video_segments rounding_final) 2
      \<noteq> sum_list (map duration (take 2 (all_video_segments rounding_final)))"
    unfolding offset exact by simp
  have spec_label: "chapter_label (60 - 1 / 2 ^ 48) ''virgo'' = ''00:59 Virgo''"
    by (simp add: chapter_label_def minutes_of_def seconds_of_def format_02d_def decimal.simps
          digit_def upper_char_def lower_char_def)
  from run label offset exact differ spec_label show ?thesis by blast
qed

lemma audio_filepath_of_inj: "audio_filepath_of s = audio_filepath_of s' \<Longrightarrow> s = s'"
  by (simp add: audio_filepath_of_def path_join_def)

text \<open>
  C7. In every run whose loop returns, whichever signs were skipped, the signs of the
  segments in the timeline, read in timeline order, are a subsequence of the fixed list of
  twelve (a segment is told by the MP3 it carries, a label by the sign it names); and there
  are as many labels as segments.
\<close>

theorem segments_follow_sign_order:
  assumes "topic_loop w ZODIAC_SIGNS (initial_state w) = Inr st"
  shows "length ZODIAC_SIGNS = 12 \<and>
         (\<exists>inc. subseq inc ZODIAC_SIGNS \<and>
            list_all2 (built_for w) inc (all_video_segments st) \<and>
            list_all2 (\<lambda>sign label. \<exists>t. label = chapter_label t sign)
              inc (youtube_description_parts st)) \<and>
         length (youtube_description_parts st) = length (all_video_segments st)"
proof -
  from run_timeline [OF assms] obtain inc where
    inc: "subseq inc ZODIAC_SIGNS" "list_all2 (built_for w) inc (all_video_segments st)"
      "youtube_description_parts st = labels_from w 0 inc (all_video_segments st)"
    by blast
  from inc(2) have len: "length inc = length (all_video_segments st)"
    by (rule list_all2_lengthD)
  have plen: "length (youtube_description_parts st) = length (all_video_segments st)"
    using labels_from_length [OF len] inc(3) by simp
  have "list_all2 (\<lambda>sign label. \<exists>t. label = chapter_label t sign)
          inc (youtube_description_parts st)"
    unfolding list_all2_conv_all_nth
  proof (intro conjI allI impI)
    show "length inc = length (youtube_description_parts st)" using len plen by simp
  next
    fix i assume "i < length inc"
    then have "i < length (all_video_segments st)" using len by simp
    from labels_from_nth [OF len this, of w 0] inc(3)
    show "\<exists>t. youtube_description_parts st ! i = chapter_label t (inc ! i)" by auto
  qed
  with inc(1,2) plen show ?thesis by (auto simp: ZODIAC_SIGNS_def)
qed

theorem segments_follow_sign_order_witness:
  "topic_loop two_sign_world ZODIAC_SIGNS (initial_state two_sign_world) = Inr two_sign_final \<and>
   all_video_segments two_sign_final = [aries_segment, leo_segment] \<and>
   (\<exists>inc. subseq inc ZODIAC_SIGNS \<and>
      list_all2 (built_for two_sign_world) inc [aries_segment, leo_segment] \<and>
      list_all2 (\<lambda>sign label. \<exists>t. label = chapter_label t sign)
        inc (youtube_description_parts two_sign_final)) \<and>
   length (youtube_description_parts two_sign_final) = length [aries_segment, leo_segment]"
proof -
  have segs: "all_video_segments two_sign_final = [aries_segment, leo_segment]"
    by (simp add: two_sign_final_def)
  from segments_follow_sign_order [OF two_sign_run] two_sign_run segs
  show ?thesis by simp
qed

text \<open>
  C8. In every run whose loop returns (rounding monotone, audio durations non-negative),
  the label of the \<open>i\<close>-th included segment is the specification's \<^verbatim>\<open>MM:SS\<close> rendering of
  its offset cut to whole seconds, followed by the sign's name. The cut is made for the
  label only: the next offset is the uncut offset plus the segment's duration (a float
  sum, fractions kept), and the timestamp left at the end is the last such sum.
\<close>

theorem labels_truncate_offsets_keep_fractions:
  assumes "topic_loop w ZODIAC_SIGNS (initial_state w) = Inr st"
    and "sound_rounding w"
    and "\<forall>path d. load_audio w path = Some d \<longrightarrow> 0 \<le> d"
  shows "\<exists>inc. length inc = length (all_video_segments st) \<and>
           (\<forall>i < length (all_video_segments st).
              youtube_description_parts st ! i
                = mmss_spec (offset_of w (all_video_segments st) i)
                    @ '' '' @ capitalize (inc ! i) \<and>
              offset_of w (all_video_segments st) (Suc i)
                = float_add w (offset_of w (all_video_segments st) i)
                    (duration (all_video_segments st ! i))) \<and>
           offset_of w (all_video_segments st) 0 = 0 \<and>
           current_timestamp_seconds st
             = offset_of w (all_video_segments st) (length (all_video_segments st))"
proof -
  from run_timeline [OF assms(1)] obtain inc where
    inc: "list_all2 (built_for w) inc (all_video_segments st)"
      "youtube_description_parts st = labels_from w 0 inc (all_video_segments st)"
      "current_timestamp_seconds st
         = offset_of w (all_video_segments st) (length (all_video_segments st))"
    by blast
  from inc(1) have len: "length inc = length (all_video_segments st)"
    by (rule list_all2_lengthD)
  have nonneg: "0 \<le> offset_of w (all_video_segments st) i" for i
    using offset_of_is_float [OF assms(2) built_durations_nonneg [OF inc(1) assms(3)]] by simp
  have "\<forall>i < length (all_video_segments st).
      youtube_description_parts st ! i
        = mmss_spec (offset_of w (all_video_segments st) i) @ '' '' @ capitalize (inc ! i) \<and>
      offset_of w (all_video_segments st) (Suc i)
        = float_add w (offset_of w (all_video_segments st) i)
            (duration (all_video_segments st ! i))"
  proof (intro allI impI conjI)
    fix i assume i: "i < length (all_video_segments st)"
    from labels_from_nth [OF len i, of w 0] inc(2)
    have "youtube_description_parts st ! i
            = chapter_label (offset_of w (all_video_segments st) i) (inc ! i)"
      by (simp add: offset_of_def)
    also have "\<dots> = mmss_spec (offset_of w (all_video_segments st) i)
                        @ '' '' @ capitalize (inc ! i)"
      by (rule chapter_label_spec [OF nonneg])
    finally show "youtube_description_parts st ! i
        = mmss_spec (offset_of w (all_video_segments st) i) @ '' '' @ capitalize (inc ! i)" .
    show "offset_of w (all_video_segments st) (Suc i)
        = float_add w (offset_of w (all_video_segments st) i)
            (duration (all_video_segments st ! i))"
      by (rule offset_of_Suc [OF i])
  qed
  with len inc(3) offset_of_0 [of w "all_video_segments st"] show ?thesis by blast
qed

theorem labels_truncate_offsets_keep_fractions_witness:
  "topic_loop two_sign_world ZODIAC_SIGNS (initial_state two_sign_world) = Inr two_sign_final \<and>
   sound_rounding two_sign_world \<and>
   offset_of two_sign_world (all_video_segments two_sign_final) 1 = 12.5 \<and>
   mmss_spec 12.5 = ''00:12'' \<and>
   (\<exists>inc. youtube_description_parts two_sign_final ! 1
            = mmss_spec 12.5 @ '' '' @ capitalize (inc ! 1)) \<and>
   offset_of two_sign_world (all_video_segments two_sign_final) 2
     = float_add two_sign_world 12.5 8.0 \<and>
   current_timestamp_seconds two_sign_final = 20.5"
proof -
  from labels_truncate_offsets_keep_fractions
         [OF two_sign_run two_sign_world_rounding two_sign_world_nonneg]
  obtain inc where
    inc: "\<forall>i < length (all_video_segments two_sign_final).
              youtube_description_parts two_sign_final ! i
                = mmss_spec (offset_of two_sign_world (all_video_segments two_sign_final) i)
                    @ '' '' @ capitalize (inc ! i) \<and>
              offset_of two_sign_world (all_video_segments two_sign_final) (Suc i)
                = float_add two_sign_world
                    (offset_of two_sign_world (all_video_segments two_sign_final) i)
                    (duration (all_video_segments two_sign_final ! i))"
      "current_timestamp_seconds two_sign_final
         = offset_of two_sign_world (all_video_segments two_sign_final)
             (length (all_video_segments two_sign_final))"
    by blast
  have two: "length (all_video_segments two_sign_final) = 2" by (simp add: two_sign_final_def)
  have a: "offset_of two_sign_world (all_video_segments two_sign_final) 1 = 12.5"
    by (simp add: two_sign_final_def offset_of_def aries_segment_def float_add_def
          two_sign_world_def calm_world_def)
  have b: "mmss_spec 12.5 = ''00:12''"
    by (simp add: mmss_spec_def truncate_seconds_def zero_padded_def decimal.simps digit_def)
  have one: "youtube_description_parts two_sign_final ! 1
          = mmss_spec (offset_of two_sign_world (all_video_segments two_sign_final) 1)
              @ '' '' @ capitalize (inc ! 1) \<and>
        offset_of two_sign_world (all_video_segments two_sign_final) (Suc 1)
          = float_add two_sign_world
              (offset_of two_sign_world (all_video_segments two_sign_final) 1)
              (duration (all_video_segments two_sign_final ! 1))"
    using inc(1) two by simp
  then have c: "\<exists>inc. youtube_description_parts two_sign_final ! 1
            = mmss_spec 12.5 @ '' '' @ capitalize (inc ! 1)"
    unfolding a by blast
  have seg1: "duration (all_video_segments two_sign_final ! 1) = 8.0"
    by (simp add: two_sign_final_def leo_segment_def)
  have d: "offset_of two_sign_world (all_video_segments two_sign_final) 2
             = float_add two_sign_world 12.5 8.0"
    using one unfolding a seg1 by (simp add: numeral_2_eq_2)
  have e: "current_timestamp_seconds two_sign_final = 20.5"
    by (simp add: two_sign_final_def)
  from two_sign_run two_sign_world_rounding a b c d e show ?thesis by blast
qed

text \<open>Cutting is not rounding: 13.9 seconds are shown as 13.\<close>

lemma label_does_not_round: "chapter_label 13.9 ''taurus'' = ''00:13 Taurus''"
  by (simp add: chapter_label_def minutes_of_def seconds_of_def format_02d_def decimal.simps
        digit_def upper_char_def lower_char_def)

subsection \<open>Substrings and the skip test\<close>

lemma starts_with_iff: "starts_with s p \<longleftrightarrow> (\<exists>ss. s = p @ ss)"
  by (induction s p rule: starts_with.induct) auto

lemma str_contains_iff: "str_contains s sub \<longleftrightarrow> (\<exists>ps ss. s = ps @ sub @ ss)"
proof (induction s)
  case Nil
  then show ?case by auto
next
  case (Cons c cs)
  show ?case
  proof
    assume "str_contains (c # cs) sub"
    then consider "starts_with (c # cs) sub" | "str_contains cs sub" by auto
    then show "\<exists>ps ss. c # cs = ps @ sub @ ss"
    proof cases
      case 1
      then obtain ss where "c # cs = sub @ ss" by (auto simp: starts_with_iff)
      then have "c # cs = [] @ sub @ ss" by simp
      then show ?thesis by blast
    next
      case 2
      with Cons.IH obtain ps ss where "cs = ps @ sub @ ss" by blast
      then have "c # cs = (c # ps) @ sub @ ss" by simp
      then show ?thesis by blast
    qed
  next
    assume "\<exists>ps ss. c # cs = ps @ sub @ ss"
    then obtain ps ss where eq: "c # cs = ps @ sub @ ss" by blast
    show "str_contains (c # cs) sub"
    proof (cases ps)
      case Nil
      with eq have "starts_with (c # cs) sub" by (auto simp: starts_with_iff)
      then show ?thesis by simp
    next
      case (Cons p ps')
      with eq have "cs = ps' @ sub @ ss" by simp
      with Cons.IH have "str_contains cs sub" by blast
      then show ?thesis by simp
    qed
  qed
qed

lemma apology_is_skipped: "skip_fetch (PStr (apology sign))"
proof -
  have "apology sign = (''Apologies, '' @ sign @ ''. We '') @ ''couldn't retrieve''
          @ '' your horoscope at this moment.''"
    by (simp add: apology_def)
  then have "str_contains (apology sign) ''couldn't retrieve''"
    unfolding str_contains_iff by blast
  then show ?thesis by (simp add: skip_fetch_def)
qed

subsection \<open>Runs in which nothing is built\<close>

lemma failed_request_is_skipped:
  assumes "http_post w sign = Request_fails"
  shows "process_sign w sign st = Inr st"
  using assms apology_is_skipped [of sign]
  by (simp add: process_sign_def fetch_horoscope_def)

lemma all_requests_fail_loop:
  assumes "\<forall>sign. http_post w sign = Request_fails"
  shows "topic_loop w signs st = Inr st"
  using assms by (induction signs) (simp_all add: failed_request_is_skipped)

text \<open>The loop only ever adds files.\<close>

lemma process_sign_files:
  assumes "process_sign w sign st = Inr st'"
  shows "files st \<subseteq> files st'"
  using assms
  by (auto simp: process_sign_def Let_def text_to_speech_google_def
           split: sum.splits if_splits option.splits)

lemma topic_loop_files:
  assumes "topic_loop w signs st = Inr st'"
  shows "files st \<subseteq> files st'"
  using assms
proof (induction signs arbitrary: st)
  case Nil
  then show ?case by simp
next
  case (Cons sign signs)
  from Cons.prems obtain st1 where
    "process_sign w sign st = Inr st1" "topic_loop w signs st1 = Inr st'"
    by (auto split: sum.splits)
  with Cons.IH process_sign_files show ?case by blast
qed

text \<open>
  C5 (as the code has it). When the loop leaves no segment, \<^verbatim>\<open>main\<close> returns at line 326:
  it raises nothing, and none of the later stages (concatenation, writing, authentication,
  upload) has been entered.
\<close>

theorem empty_timeline_returns_early:
  assumes "topic_loop w ZODIAC_SIGNS (initial_state w) = Inr st"
    and "all_video_segments st = []"
  shows "main w = Some (Inr (No_segments, st)) \<and> calls st = []"
proof -
  from run_timeline [OF assms(1)] have "calls st = []" by blast
  with assms show ?thesis by (simp add: main_def)
qed

theorem empty_timeline_returns_early_witness:
  "topic_loop silent_world ZODIAC_SIGNS (initial_state silent_world)
     = Inr (initial_state silent_world) \<and>
   all_video_segments (initial_state silent_world) = [] \<and>
   main silent_world = Some (Inr (No_segments, initial_state silent_world)) \<and>
   calls (initial_state silent_world) = []"
proof -
  have a: "topic_loop silent_world ZODIAC_SIGNS (initial_state silent_world)
             = Inr (initial_state silent_world)"
    by (rule all_requests_fail_loop) (simp add: silent_world_def)
  have b: "all_video_segments (initial_state silent_world) = []"
    by (simp add: initial_state_def)
  from empty_timeline_returns_early [OF a b] a b show ?thesis by simp
qed

text \<open>
  The claim asks for an \<^verbatim>\<open>EmptyTimelineError\<close>. On the day every request fails, \<^verbatim>\<open>main\<close>
  returns; no exception leaves it.
\<close>

theorem empty_timeline_raises_nothing_counterexample:
  "main silent_world = Some (Inr (No_segments, initial_state silent_world)) \<and>
   \<not> isl (the (main silent_world))"
proof -
  have a: "topic_loop silent_world ZODIAC_SIGNS (initial_state silent_world)
             = Inr (initial_state silent_world)"
    by (rule all_requests_fail_loop) (simp add: silent_world_def)
  then have "main silent_world = Some (Inr (No_segments, initial_state silent_world))"
    by (simp add: main_def initial_state_def)
  then show ?thesis by simp
qed

subsection \<open>Temporary credential files\<close>

lemma setup_writes_client_secret:
  "truthy (YOUTUBE_CLIENT_SECRET_JSON_CONTENT w) \<Longrightarrow>
   CLIENT_SECRETS_FILE_TEMP \<in> files (initial_state w)"
  by (simp add: initial_state_def setup_credentials_def Let_def)

lemma setup_writes_token:
  "truthy (YOUTUBE_TOKEN_PICKLE_BASE64 w) \<Longrightarrow> token_decodes w \<Longrightarrow>
   TOKEN_PICKLE_FILE_TEMP \<in> files (initial_state w)"
  by (simp add: initial_state_def setup_credentials_def Let_def)

lemma setup_writes_service_account:
  "truthy (GOOGLE_CREDENTIALS_JSON_CONTENT w) \<Longrightarrow>
   SERVICE_ACCOUNT_FILE_TEMP \<in> files (initial_state w)"
  by (simp add: initial_state_def setup_credentials_def Let_def)

text \<open>After the clean-up of lines 372-377 no file of a set variable is left.\<close>

lemma removed_service_account:
  "truthy (GOOGLE_CREDENTIALS_JSON_CONTENT w) \<Longrightarrow>
   SERVICE_ACCOUNT_FILE_TEMP \<notin> remove_credentials w fs"
  by (auto simp: remove_credentials_def Let_def)

lemma removed_client_secret:
  "truthy (YOUTUBE_CLIENT_SECRET_JSON_CONTENT w) \<Longrightarrow>
   CLIENT_SECRETS_FILE_TEMP \<notin> remove_credentials w fs"
  by (auto simp: remove_credentials_def Let_def)

lemma removed_token:
  "truthy (YOUTUBE_TOKEN_PICKLE_BASE64 w) \<Longrightarrow>
   TOKEN_PICKLE_FILE_TEMP \<notin> remove_credentials w fs"
  by (auto simp: remove_credentials_def Let_def)

lemma main_loop_returned:
  assumes "main w = Some (Inr (path, st))"
  obtains st0 where "topic_loop w ZODIAC_SIGNS (initial_state w) = Inr st0"
  using assms by (cases "topic_loop w ZODIAC_SIGNS (initial_state w)") (simp_all add: main_def)

text \<open>A run that reaches the end of \<^verbatim>\<open>main\<close> leaves no temporary credential file.\<close>

lemma finished_run_removes_credentials:
  assumes "main w = Some (Inr (Finished, st))"
  shows "(truthy (GOOGLE_CREDENTIALS_JSON_CONTENT w) \<longrightarrow> SERVICE_ACCOUNT_FILE_TEMP \<notin> files st) \<and>
         (truthy (YOUTUBE_CLIENT_SECRET_JSON_CONTENT w) \<longrightarrow> CLIENT_SECRETS_FILE_TEMP \<notin> files st) \<and>
         (truthy (YOUTUBE_TOKEN_PICKLE_BASE64 w) \<longrightarrow> TOKEN_PICKLE_FILE_TEMP \<notin> files st)"
proof -
  from assms obtain st0 where loop: "topic_loop w ZODIAC_SIGNS (initial_state w) = Inr st0"
    by (rule main_loop_returned)
  show ?thesis
    using assms loop
    by (auto simp: main_def Let_def removed_service_account removed_client_secret removed_token
          split: if_splits auth.splits option.splits)
qed

text \<open>
  A run that returns early, from line 326 or from line 346, has the files the loop left:
  every credential file written at the start is still there.
\<close>

lemma main_early_return:
  assumes "main w = Some (Inr (path, st))" and "path \<noteq> Finished"
  shows "\<exists>st0. topic_loop w ZODIAC_SIGNS (initial_state w) = Inr st0 \<and> files st = files st0"
proof -
  from assms(1) obtain st0 where loop: "topic_loop w ZODIAC_SIGNS (initial_state w) = Inr st0"
    by (rule main_loop_returned)
  have "files st = files st0"
    using assms loop
    by (auto simp: main_def Let_def entered_def
          split: if_splits auth.splits option.splits)
  with loop show ?thesis by blast
qed

lemma early_return_keeps_credentials:
  assumes "main w = Some (Inr (path, st))" and "path \<noteq> Finished"
  shows "files (initial_state w) \<subseteq> files st"
proof -
  from main_early_return [OF assms] obtain st0 where
    "topic_loop w ZODIAC_SIGNS (initial_state w) = Inr st0" "files st = files st0"
    by blast
  with topic_loop_files show ?thesis by simp
qed

lemma silent_run:
  "main silent_world = Some (Inr (No_segments, initial_state silent_world))"
proof -
  have "topic_loop silent_world ZODIAC_SIGNS (initial_state silent_world)
          = Inr (initial_state silent_world)"
    by (rule all_requests_fail_loop) (simp add: silent_world_def)
  then show ?thesis by (simp add: main_def initial_state_def)
qed

lemma process_sign_ignores_write_flag:
  "process_sign (w\<lparr>write_videofile_ok := b\<rparr>) sign st = process_sign w sign st"
  by (simp add: process_sign_def fetch_horoscope_def regenerate_text_def py_str_def
        text_to_speech_google_def create_segment_video_def segment_try_def segment_fallback_def
        float_add_def
      cong: sum.case_cong option.case_cong if_cong pyval.case_cong response.case_cong)

lemma topic_loop_ignores_write_flag:
  "topic_loop (w\<lparr>write_videofile_ok := b\<rparr>) signs st = topic_loop w signs st"
  by (induction signs arbitrary: st)
     (simp_all add: process_sign_ignores_write_flag split: sum.splits)

lemma unwritable_run:
  "main unwritable_world
     = Some (Inr (Write_failed,
                  entered Call_write_videofile (entered Call_concatenate_videoclips two_sign_final)))"
proof -
  have init: "initial_state unwritable_world = initial_state two_sign_world"
    by (simp add: unwritable_world_def initial_state_def setup_credentials_def
          environ_after_setup_def)
  have "topic_loop unwritable_world ZODIAC_SIGNS (initial_state unwritable_world)
          = Inr two_sign_final"
    unfolding init unfolding unwritable_world_def topic_loop_ignores_write_flag
    by (rule two_sign_run)
  moreover have "all_video_segments two_sign_final \<noteq> []" by (simp add: two_sign_final_def)
  moreover have "concatenate_ok unwritable_world" "\<not> write_videofile_ok unwritable_world"
    by (simp_all add: unwritable_world_def two_sign_world_def calm_world_def)
  ultimately show ?thesis by (simp add: main_def Let_def)
qed

text \<open>
  C2, on the code. On the day every request fails, the client-secret file and the token
  file are written at the start, \<^verbatim>\<open>main\<close> returns at line 326, and both files are still
  there. The same happens at the \<^verbatim>\<open>return\<close> of line 346 when the video cannot be written.
\<close>

theorem early_returns_leave_credential_files:
  "truthy (YOUTUBE_CLIENT_SECRET_JSON_CONTENT silent_world) \<and>
   truthy (YOUTUBE_TOKEN_PICKLE_BASE64 silent_world) \<and>
   main silent_world = Some (Inr (No_segments, initial_state silent_world)) \<and>
   CLIENT_SECRETS_FILE_TEMP \<in> files (initial_state silent_world) \<and>
   TOKEN_PICKLE_FILE_TEMP \<in> files (initial_state silent_world) \<and>
   truthy (YOUTUBE_CLIENT_SECRET_JSON_CONTENT unwritable_world) \<and>
   main unwritable_world
     = Some (Inr (Write_failed,
                  entered Call_write_videofile (entered Call_concatenate_videoclips two_sign_final))) \<and>
   CLIENT_SECRETS_FILE_TEMP
     \<in> files (entered Call_write_videofile (entered Call_concatenate_videoclips two_sign_final))"
proof -
  have env: "truthy (YOUTUBE_CLIENT_SECRET_JSON_CONTENT silent_world)"
    "truthy (YOUTUBE_TOKEN_PICKLE_BASE64 silent_world)"
    "token_decodes silent_world"
    by (simp_all add: silent_world_def calm_world_def truthy_def)
  have env': "truthy (YOUTUBE_CLIENT_SECRET_JSON_CONTENT unwritable_world)"
    by (simp add: unwritable_world_def two_sign_world_def calm_world_def truthy_def)
  have "CLIENT_SECRETS_FILE_TEMP \<in> files (initial_state unwritable_world)"
    by (rule setup_writes_client_secret [OF env'])
  with early_return_keeps_credentials [OF unwritable_run]
  have kept: "CLIENT_SECRETS_FILE_TEMP
     \<in> files (entered Call_write_videofile (entered Call_concatenate_videoclips two_sign_final))"
    by auto
  show ?thesis
    by (intro conjI env(1,2) env' silent_run unwritable_run kept
          setup_writes_client_secret [OF env(1)] setup_writes_token [OF env(2,3)])
qed

subsection \<open>The upload loop\<close>

text \<open>
  From the \<open>k\<close>-th call on, if every call before the \<open>n\<close>-th reports progress and the
  \<open>n\<close>-th brings a response, the loop stops there, after \<open>n + 1\<close> calls in all.
\<close>

lemma next_chunk_loop_reaches:
  assumes "\<forall>j. k \<le> j \<and> j < n \<longrightarrow> (\<exists>status. request j = Chunk status None)"
    and "request n = Chunk status (Some response)"
    and "k \<le> n"
  shows "next_chunk_loop request k = Some (Inr response, Suc n)"
  using assms
proof (induction "n - k" arbitrary: k)
  case 0
  then have "k = n" by simp
  with "0.prems"(2) show ?case by (subst next_chunk_loop.simps) simp
next
  case (Suc m)
  then have lt: "k < n" by simp
  with Suc.prems(1) obtain s where here: "request k = Chunk s None" by auto
  have "next_chunk_loop request (Suc k) = Some (Inr response, Suc n)"
  proof (rule Suc.hyps(1))
    show "m = n - Suc k" using Suc.hyps(2) by simp
    show "\<forall>j. Suc k \<le> j \<and> j < n \<longrightarrow> (\<exists>status. request j = Chunk status None)"
      using Suc.prems(1) by auto
    show "request n = Chunk status (Some response)" by (rule Suc.prems(2))
    show "Suc k \<le> n" using lt by simp
  qed
  with here show ?case by (subst next_chunk_loop.simps) simp
qed

text \<open>An endpoint that only ever reports progress keeps the loop running for ever.\<close>

lemma next_chunk_loop_diverges:
  assumes "\<forall>j. \<exists>status. request j = Chunk status None"
  shows "next_chunk_loop request k = None"
proof (rule ccontr)
  assume "next_chunk_loop request k \<noteq> None"
  then obtain y where ret: "next_chunk_loop request k = Some y" by auto
  have "\<not> (\<forall>j. \<exists>status. request j = Chunk status None)"
  proof (rule next_chunk_loop.raw_induct [where P = "\<lambda>request k y.
            \<not> (\<forall>j. \<exists>status. request j = Chunk status None)", OF _ ret], goal_cases)
    case (1 loop request k y)
    show ?case
    proof (cases "request k")
      case Chunk_raises
      then show ?thesis by (metis chunk.distinct(1))
    next
      case (Chunk status response)
      show ?thesis
      proof (cases response)
        case None
        from 1 Chunk None have "loop request (Suc k) = Some y" by simp
        with 1 show ?thesis by blast
      next
        case (Some r)
        with Chunk show ?thesis by (metis chunk.inject option.distinct(1))
      qed
    qed
  qed
  with assms show False by simp
qed

text \<open>
  C6. When the upload session opens, the first \<open>n\<close> calls of \<^verbatim>\<open>next_chunk()\<close> report
  progress (\<open>n\<close> may be 0) and the next one brings the response, the loop ends after
  exactly \<open>n + 1\<close> calls, on that response, and the function returns the identifier found
  in it.
\<close>

theorem upload_loop_terminates_with_id:
  assumes "media_upload_ok w"
    and "\<forall>j < n. \<exists>status. next_chunk w j = Chunk status None"
    and "next_chunk w n = Chunk status (Some response)"
    and "map_of response ''id'' = Some video_id"
  shows "next_chunk_loop (next_chunk w) 0 = Some (Inr response, Suc n) \<and>
         upload_video_to_youtube w = Some (Some video_id, Suc n)"
proof -
  have "next_chunk_loop (next_chunk w) 0 = Some (Inr response, Suc n)"
    using assms(2,3) by (intro next_chunk_loop_reaches) auto
  with assms(1,4) show ?thesis by (simp add: upload_video_to_youtube_def)
qed

theorem upload_loop_terminates_with_id_witness:
  "media_upload_ok slow_upload_world \<and>
   next_chunk slow_upload_world 0 = Chunk True None \<and>
   next_chunk slow_upload_world 1 = Chunk True None \<and>
   next_chunk slow_upload_world 2 = Chunk True None \<and>
   next_chunk slow_upload_world 3 = Chunk False (Some [(''id'', ''v1'')]) \<and>
   map_of [(''id'', ''v1'')] ''id'' = Some ''v1'' \<and>
   upload_video_to_youtube slow_upload_world = Some (Some ''v1'', 4)"
proof -
  have a: "media_upload_ok slow_upload_world"
    by (simp add: slow_upload_world_def calm_world_def)
  have b: "\<forall>j < 3. \<exists>status. next_chunk slow_upload_world j = Chunk status None"
    by (auto simp: slow_upload_world_def)
  have c: "next_chunk slow_upload_world 3 = Chunk False (Some [(''id'', ''v1'')])"
    by (simp add: slow_upload_world_def)
  have d: "map_of [(''id'', ''v1'')] ''id'' = Some ''v1''" by simp
  from upload_loop_terminates_with_id [OF a b c d]
  have e: "upload_video_to_youtube slow_upload_world = Some (Some ''v1'', 4)" by simp
  have f: "next_chunk slow_upload_world 0 = Chunk True None"
    "next_chunk slow_upload_world 1 = Chunk True None"
    "next_chunk slow_upload_world 2 = Chunk True None"
    by (simp_all add: slow_upload_world_def)
  from a f c d e show ?thesis by simp
qed

text \<open>With no progress report at all the response comes at the first call.\<close>

lemma upload_answers_at_once:
  "upload_video_to_youtube calm_world = Some (Some ''v1'', 1)"
  by (subst upload_video_to_youtube_def, subst next_chunk_loop.simps)
     (simp add: calm_world_def)

subsection \<open>Fetching and skipping\<close>

text \<open>
  C9 (as the code has it). A \<^verbatim>\<open>RequestException\<close> never leaves \<^verbatim>\<open>fetch_horoscope\<close>: on a
  failed request the function returns the apology for that sign, which the driver skips.
  When the answer is an object whose description is a string, the function returns that
  string. The driver looks at nothing but the returned text: it skips a string exactly when
  it is empty or contains one of the two phrases, a fetched description that contains one
  included, and a skipped sign leaves the run's state as it was.
\<close>

theorem fetch_and_skip_policy:
  "(http_post w sign = Request_fails \<longrightarrow>
      fetch_horoscope w sign = Inr (PStr (apology sign)) \<and> skip_fetch (PStr (apology sign))) \<and>
   (\<forall>items s. http_post w sign = Json (PDict items) \<and>
        map_of items ''description'' = Some (PStr s) \<longrightarrow>
        fetch_horoscope w sign = Inr (PStr s)) \<and>
   fetch_horoscope w sign \<noteq> Inl RequestException \<and>
   (\<forall>s. skip_fetch (PStr s) \<longleftrightarrow>
        s = [] \<or> str_contains s ''Could not fetch'' \<or> str_contains s ''couldn't retrieve'') \<and>
   (\<forall>raw st. fetch_horoscope w sign = Inr raw \<and> skip_fetch raw \<longrightarrow>
        process_sign w sign st = Inr st)"
proof (intro conjI allI impI)
  assume "http_post w sign = Request_fails"
  then show "fetch_horoscope w sign = Inr (PStr (apology sign))"
    by (simp add: fetch_horoscope_def)
next
  show "skip_fetch (PStr (apology sign))" by (rule apology_is_skipped)
next
  fix items s
  assume "http_post w sign = Json (PDict items) \<and> map_of items ''description'' = Some (PStr s)"
  then show "fetch_horoscope w sign = Inr (PStr s)"
    by (simp add: fetch_horoscope_def)
next
  show "fetch_horoscope w sign \<noteq> Inl RequestException"
  proof (cases "http_post w sign")
    case Request_fails
    then show ?thesis by (simp add: fetch_horoscope_def)
  next
    case (Request_crashes e)
    then show ?thesis by (simp add: fetch_horoscope_def)
  next
    case (Json data)
    show ?thesis
    proof (cases data)
      case (PDict items)
      have "slice50 v \<noteq> Inl RequestException" for v by (cases v) simp_all
      with Json PDict show ?thesis
        by (auto simp: fetch_horoscope_def split: sum.splits)
    qed (use Json in \<open>simp_all add: fetch_horoscope_def\<close>)
  qed
next
  fix s
  show "skip_fetch (PStr s) \<longleftrightarrow>
          s = [] \<or> str_contains s ''Could not fetch'' \<or> str_contains s ''couldn't retrieve''"
    by (simp add: skip_fetch_def)
next
  fix raw st
  assume "fetch_horoscope w sign = Inr raw \<and> skip_fetch raw"
  then show "process_sign w sign st = Inr st" by (simp add: process_sign_def)
qed

theorem fetch_and_skip_policy_witness:
  "http_post two_sign_world ''taurus'' = Request_fails \<and>
   fetch_horoscope two_sign_world ''taurus''
     = Inr (PStr ''Apologies, taurus. We couldn't retrieve your horoscope at this moment.'') \<and>
   http_post two_sign_world ''aries'' = Json (PDict [(''description'', PStr ''A calm day.'')]) \<and>
   map_of [(''description'', PStr ''A calm day.'')] ''description'' = Some (PStr ''A calm day.'') \<and>
   fetch_horoscope two_sign_world ''aries'' = Inr (PStr ''A calm day.'') \<and>
   str_contains ''What you couldn't retrieve returns.'' ''couldn't retrieve'' \<and>
   skip_fetch (PStr ''What you couldn't retrieve returns.'') \<and>
   process_sign two_sign_world ''taurus'' (initial_state two_sign_world)
     = Inr (initial_state two_sign_world)"
proof -
  note policy = fetch_and_skip_policy [of two_sign_world]
  have a: "http_post two_sign_world ''taurus'' = Request_fails"
    by (simp add: two_sign_world_def)
  from policy [of "''taurus''", THEN conjunct1, rule_format, OF a]
  have b: "fetch_horoscope two_sign_world ''taurus'' = Inr (PStr (apology ''taurus''))"
    and b': "skip_fetch (PStr (apology ''taurus''))" by simp_all
  have c: "http_post two_sign_world ''aries'' = Json (PDict [(''description'', PStr ''A calm day.'')])"
    by (simp add: two_sign_world_def)
  have d: "map_of [(''description'', PStr ''A calm day.'')] ''description'' = Some (PStr ''A calm day.'')"
    by simp
  from policy [of "''aries''", THEN conjunct2, THEN conjunct1, rule_format, OF conjI [OF c d]]
  have e: "fetch_horoscope two_sign_world ''aries'' = Inr (PStr ''A calm day.'')" .
  have f: "str_contains ''What you couldn't retrieve returns.'' ''couldn't retrieve''" by simp
  from policy [of "''aries''", THEN conjunct2, THEN conjunct2, THEN conjunct2, THEN conjunct1,
               rule_format, of "''What you couldn't retrieve returns.''"] f
  have g: "skip_fetch (PStr ''What you couldn't retrieve returns.'')" by blast
  from policy [of "''taurus''", THEN conjunct2, THEN conjunct2, THEN conjunct2, THEN conjunct2,
               rule_format, OF conjI [OF b b']]
  have h: "process_sign two_sign_world ''taurus'' (initial_state two_sign_world)
             = Inr (initial_state two_sign_world)" .
  from a b c d e f g h show ?thesis by (simp add: apology_def)
qed

text \<open>
  The claim says the function returns a string for every topic, and that the driver skips
  by the two phrases alone. An answer without a description makes line 77 raise
  \<^verbatim>\<open>TypeError\<close>, which nothing catches; and the empty text is skipped though it contains
  neither phrase.
\<close>

theorem fetch_is_not_total_counterexample:
  "http_post no_description_world ''aries'' = Json (PDict []) \<and>
   fetch_horoscope no_description_world ''aries'' = Inl TypeError \<and>
   skip_fetch (PStr []) \<and>
   \<not> str_contains [] ''Could not fetch'' \<and>
   \<not> str_contains [] ''couldn't retrieve''"
  by (simp add: no_description_world_def fetch_horoscope_def skip_fetch_def)

end
